theory Spec2Isabelle
  imports Main
begin

section \<open>Enumerations of ftxcontrol.py\<close>

datatype OperatingMode =
  LSB | USB | CW_U | FM | AM | RTTY_L | CW_L | DATA_L | RTTY_U | DATA_FM | FM_N
  | DATA_U | AM_N | PSK | DATA_FM_N | C4FM_DN | C4FM_VW

text \<open>The \<open>.value\<close> of each member of \<open>OperatingMode\<close>: a one-character Python string.\<close>

fun OperatingMode_value :: "OperatingMode \<Rightarrow> string" where
  "OperatingMode_value LSB = ''1''"
| "OperatingMode_value USB = ''2''"
| "OperatingMode_value CW_U = ''3''"
| "OperatingMode_value FM = ''4''"
| "OperatingMode_value AM = ''5''"
| "OperatingMode_value RTTY_L = ''6''"
| "OperatingMode_value CW_L = ''7''"
| "OperatingMode_value DATA_L = ''8''"
| "OperatingMode_value RTTY_U = ''9''"
| "OperatingMode_value DATA_FM = ''A''"
| "OperatingMode_value FM_N = ''B''"
| "OperatingMode_value DATA_U = ''C''"
| "OperatingMode_value AM_N = ''D''"
| "OperatingMode_value PSK = ''E''"
| "OperatingMode_value DATA_FM_N = ''F''"
| "OperatingMode_value C4FM_DN = ''H''"
| "OperatingMode_value C4FM_VW = ''I''"

datatype AGCMode = OFF | FAST | MID | SLOW | AUTO

fun AGCMode_value :: "AGCMode \<Rightarrow> string" where
  "AGCMode_value OFF = ''0''"
| "AGCMode_value FAST = ''1''"
| "AGCMode_value MID = ''2''"
| "AGCMode_value SLOW = ''3''"
| "AGCMode_value AUTO = ''4''"

section \<open>The Python built-ins the module relies on\<close>

text \<open>
  A Python \<open>str\<close> and a Python \<open>bytes\<close> are both modelled as \<open>string\<close>, a list of
  8-bit characters. A character with the top bit set stands for a code point (or a byte)
  outside 7-bit ASCII: \<open>encode('ascii')\<close> and \<open>decode('ascii')\<close> raise on it.
  Every exception the module can raise is a constructor of \<open>error\<close>.
\<close>

datatype error = ValueError | IndexError | UnicodeEncodeError | UnicodeDecodeError

definition is_ascii :: "char \<Rightarrow> bool" where
  "is_ascii c = (of_char c < (128::nat))"

definition encode_ascii :: "string \<Rightarrow> error + string" where
  "encode_ascii s = (if list_all is_ascii s then Inr s else Inl UnicodeEncodeError)"

definition decode_ascii :: "string \<Rightarrow> error + string" where
  "decode_ascii b = (if list_all is_ascii b then Inr b else Inl UnicodeDecodeError)"

text \<open>Decimal digits of a natural number, most significant first, as \<open>str\<close> prints them.\<close>

definition digit_char :: "nat \<Rightarrow> char" where
  "digit_char d = char_of (48 + d)"

fun dec_digits :: "nat \<Rightarrow> string" where
  "dec_digits n =
     (if n < 10 then [digit_char n] else dec_digits (n div 10) @ [digit_char (n mod 10)])"

declare dec_digits.simps [simp del]

text \<open>\<open>str(n)\<close> for an integer, as the f-string fields \<open>{side}\<close>, \<open>{unit}\<close> produce it.\<close>

definition py_str :: "int \<Rightarrow> string" where
  "py_str n = (if n < 0 then CHR ''-'' # dec_digits (nat (- n)) else dec_digits (nat n))"

text \<open>
  \<open>format(n, '0Wd')\<close>: sign-aware zero padding to a total width of \<open>W\<close> characters; a value
  with more digits than the width is printed in full.
\<close>

definition zfill :: "nat \<Rightarrow> string \<Rightarrow> string" where
  "zfill w s = replicate (w - length s) CHR ''0'' @ s"

definition py_format_0d :: "nat \<Rightarrow> int \<Rightarrow> string" where
  "py_format_0d w n =
     (if n < 0 then CHR ''-'' # zfill (w - 1) (dec_digits (nat (- n)))
      else zfill w (dec_digits (nat n)))"

text \<open>
  \<open>int(s)\<close> on an ASCII string: the whitespace characters 0x09 to 0x0D and 0x20 are skipped
  at both ends, one optional sign follows, then a non-empty run of decimal digits in which
  single underscores may separate digits. Anything else raises \<open>ValueError\<close>, and so does a
  literal of more than 4300 digits, the default of \<open>sys.int_max_str_digits\<close>.
\<close>

definition py_isspace :: "char \<Rightarrow> bool" where
  "py_isspace c = (let k = (of_char c :: nat) in (9 \<le> k \<and> k \<le> 13) \<or> k = 32)"

definition int_max_str_digits :: nat where
  "int_max_str_digits = 4300"

definition py_strip :: "string \<Rightarrow> string" where
  "py_strip s = rev (dropWhile py_isspace (rev (dropWhile py_isspace s)))"

definition is_digit :: "char \<Rightarrow> bool" where
  "is_digit c = (let k = (of_char c :: nat) in 48 \<le> k \<and> k \<le> 57)"

definition digit_val :: "char \<Rightarrow> nat" where
  "digit_val c = of_char c - 48"

fun digits_ok :: "bool \<Rightarrow> string \<Rightarrow> bool" where
  "digits_ok prev [] = prev"
| "digits_ok prev (c # cs) =
     (if is_digit c then digits_ok True cs
      else if c = CHR ''_'' \<and> prev then digits_ok False cs
      else False)"

definition digits_value :: "string \<Rightarrow> nat" where
  "digits_value cs = foldl (\<lambda>a c. 10 * a + digit_val c) 0 (filter is_digit cs)"

definition py_int :: "string \<Rightarrow> error + int" where
  "py_int s =
     (let t = py_strip s;
          neg = (t \<noteq> [] \<and> hd t = CHR ''-'');
          ds = (if t \<noteq> [] \<and> (hd t = CHR ''-'' \<or> hd t = CHR ''+'') then tl t else t)
      in if digits_ok False ds \<and> length (filter is_digit ds) \<le> int_max_str_digits
         then Inr (if neg then - int (digits_value ds) else int (digits_value ds))
         else Inl ValueError)"

text \<open>\<open>s[i]\<close> for a non-negative constant index, and the slices \<open>s[i:]\<close>, \<open>s[i:j]\<close>.\<close>

definition py_index :: "string \<Rightarrow> nat \<Rightarrow> error + char" where
  "py_index s i = (if i < length s then Inr (s ! i) else Inl IndexError)"

definition py_slice :: "string \<Rightarrow> nat \<Rightarrow> nat \<Rightarrow> string" where
  "py_slice s i j = take (j - i) (drop i s)"

definition py_slice_from :: "string \<Rightarrow> nat \<Rightarrow> string" where
  "py_slice_from s i = drop i s"

text \<open>Sequencing of computations that may raise.\<close>

fun err_bind :: "error + 'a \<Rightarrow> ('a \<Rightarrow> error + 'b) \<Rightarrow> error + 'b" where
  "err_bind (Inl e) f = Inl e"
| "err_bind (Inr x) f = f x"

section \<open>The transaction engine: \<open>FTX1Controller._send_command\<close>\<close>

text \<open>
  The controller owns the serial port. Of the port the model keeps what the claims are
  about: the frames written so far, one list entry per call of \<open>write\<close>, and the reads to
  come. \<open>ser_rx k\<close> is the result of the \<open>k\<close>-th call of \<open>read(1)\<close>: \<open>Some b\<close> for a byte,
  \<open>None\<close> for the empty result of a timeout; \<open>ser_pos\<close> counts the reads done.
  The two \<open>time.sleep\<close> delays and failures of the port itself are outside the model.
\<close>

record FTX1Controller =
  ser_written :: "string list"
  ser_rx :: "nat \<Rightarrow> char option"
  ser_pos :: nat

text \<open>
  The \<open>while True\<close> loop of \<open>_send_command\<close>. A port that keeps delivering bytes other than
  the terminator keeps the loop running for ever: the value \<open>None\<close>.
\<close>

partial_function (option) read_loop ::
  "FTX1Controller \<Rightarrow> string \<Rightarrow> (string \<times> FTX1Controller) option" where
  "read_loop ftx response =
     (case ser_rx ftx (ser_pos ftx) of
        None \<Rightarrow> Some (response, ftx\<lparr>ser_pos := Suc (ser_pos ftx)\<rparr>)
      | Some char \<Rightarrow>
          if char = CHR '';'' then Some (response, ftx\<lparr>ser_pos := Suc (ser_pos ftx)\<rparr>)
          else read_loop (ftx\<lparr>ser_pos := Suc (ser_pos ftx)\<rparr>) (response @ [char]))"

text \<open>
  The outcome of a call on the controller: \<open>None\<close> when it never returns, otherwise the
  exception raised or the value returned, with the controller as the call leaves it.
\<close>

type_synonym 'a outcome = "((error + 'a) \<times> FTX1Controller) option"

definition send_command :: "FTX1Controller \<Rightarrow> string \<Rightarrow> string outcome" where
  "send_command ftx command =
     (let cmd = command @ '';'' in
      case encode_ascii cmd of
        Inl e \<Rightarrow> Some (Inl e, ftx)
      | Inr bytes \<Rightarrow>
          (case read_loop (ftx\<lparr>ser_written := ser_written ftx @ [bytes]\<rparr>) [] of
             None \<Rightarrow> None
           | Some (response, ftx') \<Rightarrow> Some (decode_ascii response, ftx')))"

text \<open>A function that ignores the reply and returns \<open>None\<close>; one that decodes the reply.\<close>

definition returns_nothing :: "string outcome \<Rightarrow> unit outcome" where
  "returns_nothing r = map_option (\<lambda>(v, ftx'). (map_sum id (\<lambda>_. ()) v, ftx')) r"

definition returns_decoded :: "(string \<Rightarrow> error + 'a) \<Rightarrow> string outcome \<Rightarrow> 'a outcome" where
  "returns_decoded f r = map_option (\<lambda>(v, ftx'). (err_bind v f, ftx')) r"

text \<open>
  \<open>next_reads ftx xs\<close>: the coming calls of \<open>read(1)\<close> return the entries of \<open>xs\<close>, in order.
\<close>

definition next_reads :: "FTX1Controller \<Rightarrow> char option list \<Rightarrow> bool" where
  "next_reads ftx xs = (map (\<lambda>j. ser_rx ftx (ser_pos ftx + j)) [0..<length xs] = xs)"

text \<open>A finite script of reads, after which every read times out.\<close>

definition script :: "char option list \<Rightarrow> nat \<Rightarrow> char option" where
  "script xs k = (if k < length xs then xs ! k else None)"

section \<open>The command catalog\<close>

text \<open>
  Each function of the module is one definition, in the order of the source. The side
  selector, typed \<open>Literal[0, 1]\<close>, is an integer at run time and is printed by \<open>str\<close>.
  The command bodies and reply decoders that the properties below speak about are
  definitions of their own; the catalog functions are built from them.
\<close>

subsection \<open>Frequency control\<close>

definition set_frequency_main_command :: "int \<Rightarrow> string" where
  "set_frequency_main_command freq_hz = ''FA'' @ py_format_0d 9 freq_hz"

definition set_frequency_main :: "FTX1Controller \<Rightarrow> int \<Rightarrow> unit outcome" where
  "set_frequency_main ftx freq_hz =
     returns_nothing (send_command ftx (set_frequency_main_command freq_hz))"

definition get_frequency_main_decode :: "string \<Rightarrow> error + int" where
  "get_frequency_main_decode response = py_int (py_slice_from response 2)"

definition get_frequency_main :: "FTX1Controller \<Rightarrow> int outcome" where
  "get_frequency_main ftx = returns_decoded get_frequency_main_decode (send_command ftx ''FA'')"

definition set_frequency_sub_command :: "int \<Rightarrow> string" where
  "set_frequency_sub_command freq_hz = ''FB'' @ py_format_0d 9 freq_hz"

definition set_frequency_sub :: "FTX1Controller \<Rightarrow> int \<Rightarrow> unit outcome" where
  "set_frequency_sub ftx freq_hz =
     returns_nothing (send_command ftx (set_frequency_sub_command freq_hz))"

definition get_frequency_sub_decode :: "string \<Rightarrow> error + int" where
  "get_frequency_sub_decode response = py_int (py_slice_from response 2)"

definition get_frequency_sub :: "FTX1Controller \<Rightarrow> int outcome" where
  "get_frequency_sub ftx = returns_decoded get_frequency_sub_decode (send_command ftx ''FB'')"

subsection \<open>Mode control\<close>

definition set_mode_command :: "OperatingMode \<Rightarrow> int \<Rightarrow> string" where
  "set_mode_command mode side = ''MD'' @ py_str side @ OperatingMode_value mode"

definition set_mode :: "FTX1Controller \<Rightarrow> OperatingMode \<Rightarrow> int \<Rightarrow> unit outcome" where
  "set_mode ftx mode side = returns_nothing (send_command ftx (set_mode_command mode side))"

definition get_mode_decode :: "string \<Rightarrow> error + string" where
  "get_mode_decode response = Inr (py_slice_from response 3)"

definition get_mode :: "FTX1Controller \<Rightarrow> int \<Rightarrow> string outcome" where
  "get_mode ftx side = returns_decoded get_mode_decode (send_command ftx (''MD'' @ py_str side))"

subsection \<open>PTT control\<close>

definition set_ptt :: "FTX1Controller \<Rightarrow> bool \<Rightarrow> unit outcome" where
  "set_ptt ftx state = returns_nothing (send_command ftx (if state then ''TX1'' else ''TX0''))"

definition get_ptt_status_decode :: "string \<Rightarrow> error + bool" where
  "get_ptt_status_decode response = err_bind (py_index response 2) (\<lambda>c. Inr (c = CHR ''2''))"

definition get_ptt_status :: "FTX1Controller \<Rightarrow> bool outcome" where
  "get_ptt_status ftx = returns_decoded get_ptt_status_decode (send_command ftx ''TX'')"

subsection \<open>Power control\<close>

text \<open>
  \<open>power_watts\<close> is annotated \<open>float\<close> but formatted with \<open>03d\<close>, which accepts an integer
  and raises \<open>ValueError\<close> for every float, before anything is sent.
\<close>

datatype pynumber = PyInt int | PyFloat

definition set_rf_power :: "FTX1Controller \<Rightarrow> pynumber \<Rightarrow> int \<Rightarrow> unit outcome" where
  "set_rf_power ftx power_watts unit =
     (case power_watts of
        PyFloat \<Rightarrow> Some (Inl ValueError, ftx)
      | PyInt p \<Rightarrow> returns_nothing (send_command ftx (''PC'' @ py_str unit @ py_format_0d 3 p)))"

text \<open>
  \<open>float(s)\<close> raises \<open>ValueError\<close> on an empty or blank string; what it returns on any
  other string is the parameter \<open>fl\<close>, floating point being outside the model.
\<close>

definition py_float :: "(string \<Rightarrow> error + 'f) \<Rightarrow> string \<Rightarrow> error + 'f" where
  "py_float fl s = (if py_strip s = [] then Inl ValueError else fl s)"

definition get_rf_power_decode :: "(string \<Rightarrow> error + 'f) \<Rightarrow> string \<Rightarrow> error + (int \<times> 'f)" where
  "get_rf_power_decode fl response =
     err_bind (py_index response 2) (\<lambda>c.
     err_bind (py_int [c]) (\<lambda>unit.
     err_bind (py_float fl (py_slice response 3 6)) (\<lambda>power.
     Inr (unit, power))))"

definition get_rf_power :: "(string \<Rightarrow> error + 'f) \<Rightarrow> FTX1Controller \<Rightarrow> (int \<times> 'f) outcome" where
  "get_rf_power fl ftx = returns_decoded (get_rf_power_decode fl) (send_command ftx ''PC'')"

subsection \<open>AGC control\<close>

definition set_agc :: "FTX1Controller \<Rightarrow> AGCMode \<Rightarrow> int \<Rightarrow> unit outcome" where
  "set_agc ftx mode side =
     returns_nothing (send_command ftx (''GT'' @ py_str side @ AGCMode_value mode))"

definition get_agc_decode :: "string \<Rightarrow> error + string" where
  "get_agc_decode response = Inr (py_slice_from response 3)"

definition get_agc :: "FTX1Controller \<Rightarrow> int \<Rightarrow> string outcome" where
  "get_agc ftx side = returns_decoded get_agc_decode (send_command ftx (''GT'' @ py_str side))"

subsection \<open>Audio control\<close>

definition set_af_gain :: "FTX1Controller \<Rightarrow> int \<Rightarrow> int \<Rightarrow> unit outcome" where
  "set_af_gain ftx level side =
     returns_nothing (send_command ftx (''AG'' @ py_str side @ py_format_0d 3 level))"

definition get_af_gain_decode :: "string \<Rightarrow> error + int" where
  "get_af_gain_decode response = py_int (py_slice response 3 6)"

definition get_af_gain :: "FTX1Controller \<Rightarrow> int \<Rightarrow> int outcome" where
  "get_af_gain ftx side =
     returns_decoded get_af_gain_decode (send_command ftx (''AG'' @ py_str side))"

definition set_squelch :: "FTX1Controller \<Rightarrow> int \<Rightarrow> int \<Rightarrow> unit outcome" where
  "set_squelch ftx level side =
     returns_nothing (send_command ftx (''SQ'' @ py_str side @ py_format_0d 3 level))"

definition get_squelch_decode :: "string \<Rightarrow> error + int" where
  "get_squelch_decode response = py_int (py_slice response 3 6)"

definition get_squelch :: "FTX1Controller \<Rightarrow> int \<Rightarrow> int outcome" where
  "get_squelch ftx side =
     returns_decoded get_squelch_decode (send_command ftx (''SQ'' @ py_str side))"

subsection \<open>Meter readings\<close>

definition get_s_meter_decode :: "string \<Rightarrow> error + int" where
  "get_s_meter_decode response = py_int (py_slice response 3 6)"

definition get_s_meter :: "FTX1Controller \<Rightarrow> int \<Rightarrow> int outcome" where
  "get_s_meter ftx side =
     returns_decoded get_s_meter_decode (send_command ftx (''SM'' @ py_str side))"

definition get_meter_reading_decode :: "string \<Rightarrow> error + (int \<times> int)" where
  "get_meter_reading_decode response =
     err_bind (py_int (py_slice response 3 6)) (\<lambda>primary.
     err_bind (py_int (py_slice response 6 9)) (\<lambda>secondary.
     Inr (primary, secondary)))"

definition get_meter_reading :: "FTX1Controller \<Rightarrow> int \<Rightarrow> (int \<times> int) outcome" where
  "get_meter_reading ftx meter_type =
     returns_decoded get_meter_reading_decode (send_command ftx (''RM'' @ py_str meter_type))"

subsection \<open>VFO and memory operations\<close>

definition toggle_vfo_memory :: "FTX1Controller \<Rightarrow> int \<Rightarrow> unit outcome" where
  "toggle_vfo_memory ftx side = returns_nothing (send_command ftx (''VM'' @ py_str side))"

definition set_memory_channel :: "FTX1Controller \<Rightarrow> int \<Rightarrow> int \<Rightarrow> unit outcome" where
  "set_memory_channel ftx channel side =
     (if \<not> (1 \<le> channel \<and> channel \<le> 99) then Some (Inl ValueError, ftx)
      else returns_nothing (send_command ftx (''MC'' @ py_str side @ py_format_0d 5 channel)))"

definition memory_to_vfo :: "FTX1Controller \<Rightarrow> unit outcome" where
  "memory_to_vfo ftx = returns_nothing (send_command ftx ''MA'')"

definition memory_to_vfo_sub :: "FTX1Controller \<Rightarrow> unit outcome" where
  "memory_to_vfo_sub ftx = returns_nothing (send_command ftx ''MB'')"

subsection \<open>Split operation\<close>

definition set_split :: "FTX1Controller \<Rightarrow> bool \<Rightarrow> unit outcome" where
  "set_split ftx state = returns_nothing (send_command ftx (if state then ''ST1'' else ''ST0''))"

definition get_split_decode :: "string \<Rightarrow> error + bool" where
  "get_split_decode response = err_bind (py_index response 2) (\<lambda>c. Inr (c = CHR ''1''))"

definition get_split :: "FTX1Controller \<Rightarrow> bool outcome" where
  "get_split ftx = returns_decoded get_split_decode (send_command ftx ''ST'')"

subsection \<open>Clarifier\<close>

definition set_clarifier_flags_command :: "bool \<Rightarrow> bool \<Rightarrow> int \<Rightarrow> string" where
  "set_clarifier_flags_command rx_on tx_on side =
     (let rx = (if rx_on then ''1'' else ''0'');
          tx = (if tx_on then ''1'' else ''0'')
      in ''CF'' @ py_str side @ ''00'' @ rx @ tx @ ''000'')"

definition set_clarifier_offset_command :: "int \<Rightarrow> int \<Rightarrow> string" where
  "set_clarifier_offset_command offset_hz side =
     (let sign = (if offset_hz \<ge> 0 then ''+'' else ''-'');
          freq = abs offset_hz
      in ''CF'' @ py_str side @ ''01'' @ sign @ py_format_0d 4 freq)"

definition set_clarifier ::
  "FTX1Controller \<Rightarrow> bool \<Rightarrow> bool \<Rightarrow> int \<Rightarrow> int \<Rightarrow> unit outcome" where
  "set_clarifier ftx rx_on tx_on offset_hz side =
     (case send_command ftx (set_clarifier_flags_command rx_on tx_on side) of
        None \<Rightarrow> None
      | Some (Inl e, ftx') \<Rightarrow> Some (Inl e, ftx')
      | Some (Inr _, ftx') \<Rightarrow>
          returns_nothing (send_command ftx' (set_clarifier_offset_command offset_hz side)))"

subsection \<open>Band and scan operations\<close>

definition band_up :: "FTX1Controller \<Rightarrow> int \<Rightarrow> unit outcome" where
  "band_up ftx side = returns_nothing (send_command ftx (''BU'' @ py_str side))"

definition band_down :: "FTX1Controller \<Rightarrow> int \<Rightarrow> unit outcome" where
  "band_down ftx side = returns_nothing (send_command ftx (''BD'' @ py_str side))"

definition select_band :: "FTX1Controller \<Rightarrow> int \<Rightarrow> int \<Rightarrow> unit outcome" where
  "select_band ftx band side =
     returns_nothing (send_command ftx (''BS'' @ py_str side @ py_format_0d 2 band))"

definition set_scan :: "FTX1Controller \<Rightarrow> int \<Rightarrow> int \<Rightarrow> unit outcome" where
  "set_scan ftx mode side =
     returns_nothing (send_command ftx (''SC'' @ py_str side @ py_str mode))"

subsection \<open>CW operations\<close>

definition set_cw_keyer :: "FTX1Controller \<Rightarrow> bool \<Rightarrow> unit outcome" where
  "set_cw_keyer ftx state = returns_nothing (send_command ftx (if state then ''KR1'' else ''KR0''))"

definition set_cw_speed :: "FTX1Controller \<Rightarrow> int \<Rightarrow> unit outcome" where
  "set_cw_speed ftx wpm = returns_nothing (send_command ftx (''KS'' @ py_format_0d 3 wpm))"

definition get_cw_speed_decode :: "string \<Rightarrow> error + int" where
  "get_cw_speed_decode response = py_int (py_slice response 2 5)"

definition get_cw_speed :: "FTX1Controller \<Rightarrow> int outcome" where
  "get_cw_speed ftx = returns_decoded get_cw_speed_decode (send_command ftx ''KS'')"

definition set_cw_pitch :: "FTX1Controller \<Rightarrow> int \<Rightarrow> unit outcome" where
  "set_cw_pitch ftx pitch_hz =
     (let v = (pitch_hz - 300) div 10
      in returns_nothing (send_command ftx (''KP'' @ py_format_0d 2 v)))"

definition set_breakin :: "FTX1Controller \<Rightarrow> bool \<Rightarrow> unit outcome" where
  "set_breakin ftx state = returns_nothing (send_command ftx (if state then ''BI1'' else ''BI0''))"

subsection \<open>Filter operations\<close>

definition set_if_shift_command :: "int \<Rightarrow> int \<Rightarrow> string" where
  "set_if_shift_command offset_hz side =
     (let sign = (if offset_hz \<ge> 0 then ''+'' else ''-'');
          v = abs offset_hz
      in ''IS'' @ py_str side @ ''0'' @ sign @ py_format_0d 4 v)"

definition set_if_shift :: "FTX1Controller \<Rightarrow> int \<Rightarrow> int \<Rightarrow> unit outcome" where
  "set_if_shift ftx offset_hz side =
     returns_nothing (send_command ftx (set_if_shift_command offset_hz side))"

definition set_width :: "FTX1Controller \<Rightarrow> int \<Rightarrow> int \<Rightarrow> unit outcome" where
  "set_width ftx width_code side =
     returns_nothing (send_command ftx (''SH'' @ py_str side @ ''0'' @ py_format_0d 2 width_code))"

definition set_narrow :: "FTX1Controller \<Rightarrow> bool \<Rightarrow> int \<Rightarrow> unit outcome" where
  "set_narrow ftx state side =
     returns_nothing (send_command ftx
       (if state then ''NA'' @ py_str side @ ''1'' else ''NA'' @ py_str side @ ''0''))"

subsection \<open>Noise reduction\<close>

definition set_noise_blanker :: "FTX1Controller \<Rightarrow> int \<Rightarrow> int \<Rightarrow> unit outcome" where
  "set_noise_blanker ftx level side =
     returns_nothing (send_command ftx (''NL'' @ py_str side @ py_format_0d 3 level))"

definition set_dnr :: "FTX1Controller \<Rightarrow> int \<Rightarrow> int \<Rightarrow> unit outcome" where
  "set_dnr ftx level side =
     returns_nothing (send_command ftx (''RL'' @ py_str side @ py_format_0d 2 level))"

definition set_dnf :: "FTX1Controller \<Rightarrow> bool \<Rightarrow> int \<Rightarrow> unit outcome" where
  "set_dnf ftx state side =
     returns_nothing (send_command ftx
       (if state then ''BC'' @ py_str side @ ''1'' else ''BC'' @ py_str side @ ''0''))"

subsection \<open>Information retrieval\<close>

text \<open>
  The dictionary returned by \<open>get_radio_info\<close>, one field per key. The values are
  evaluated in the order of the source, so the first failing slice or index decides the
  exception.
\<close>

record radio_info =
  info_memory_channel :: string
  info_frequency :: int
  info_clar_direction :: char
  info_clar_offset :: int
  info_rx_clar :: bool
  info_tx_clar :: bool
  info_mode :: char
  info_vfo_memory :: char
  info_tone_mode :: char
  info_repeater_shift :: char

definition get_radio_info_decode :: "string \<Rightarrow> error + radio_info" where
  "get_radio_info_decode response =
     err_bind (py_int (py_slice response 7 16)) (\<lambda>frequency.
     err_bind (py_index response 16) (\<lambda>clar_direction.
     err_bind (py_int (py_slice response 17 21)) (\<lambda>clar_offset.
     err_bind (py_index response 21) (\<lambda>c21.
     err_bind (py_index response 22) (\<lambda>c22.
     err_bind (py_index response 23) (\<lambda>c23.
     err_bind (py_index response 24) (\<lambda>c24.
     err_bind (py_index response 25) (\<lambda>c25.
     err_bind (py_index response 28) (\<lambda>c28.
     Inr \<lparr>info_memory_channel = py_slice response 2 7,
          info_frequency = frequency,
          info_clar_direction = clar_direction,
          info_clar_offset = clar_offset,
          info_rx_clar = (c21 = CHR ''1''),
          info_tx_clar = (c22 = CHR ''1''),
          info_mode = c23,
          info_vfo_memory = c24,
          info_tone_mode = c25,
          info_repeater_shift = c28\<rparr>)))))))))"

definition get_radio_info :: "FTX1Controller \<Rightarrow> radio_info outcome" where
  "get_radio_info ftx = returns_decoded get_radio_info_decode (send_command ftx ''IF'')"

definition get_id_decode :: "string \<Rightarrow> error + string" where
  "get_id_decode response = Inr (py_slice_from response 2)"

definition get_id :: "FTX1Controller \<Rightarrow> string outcome" where
  "get_id ftx = returns_decoded get_id_decode (send_command ftx ''ID'')"

definition get_firmware_version_decode :: "string \<Rightarrow> error + string" where
  "get_firmware_version_decode response = Inr (py_slice_from response 3)"

definition get_firmware_version :: "FTX1Controller \<Rightarrow> int \<Rightarrow> string outcome" where
  "get_firmware_version ftx cpu =
     returns_decoded get_firmware_version_decode (send_command ftx (''VE'' @ py_str cpu))"

subsection \<open>Utility functions\<close>

definition enable_auto_information :: "FTX1Controller \<Rightarrow> bool \<Rightarrow> unit outcome" where
  "enable_auto_information ftx state =
     returns_nothing (send_command ftx (if state then ''AI1'' else ''AI0''))"

definition lock_controls :: "FTX1Controller \<Rightarrow> bool \<Rightarrow> unit outcome" where
  "lock_controls ftx state = returns_nothing (send_command ftx (if state then ''LK1'' else ''LK0''))"

definition swap_vfo :: "FTX1Controller \<Rightarrow> unit outcome" where
  "swap_vfo ftx = returns_nothing (send_command ftx ''SV'')"

section \<open>The catalog as a whole\<close>

text \<open>
  The Command Frame invariant: the frame ends with the terminator, and the terminator
  occurs nowhere before its last character.
\<close>

definition command_frame_ok :: "string \<Rightarrow> bool" where
  "command_frame_ok frame =
     (frame \<noteq> [] \<and> last frame = CHR '';'' \<and> CHR '';'' \<notin> set (butlast frame))"

text \<open>
  \<open>wrote_frames ftx ftx'\<close>: the controller \<open>ftx'\<close> has the frames of \<open>ftx\<close> and at least one more
  after them, and every added frame satisfies the invariant.
\<close>

definition wrote_frames :: "FTX1Controller \<Rightarrow> FTX1Controller \<Rightarrow> bool" where
  "wrote_frames ftx ftx' =
     (let n = length (ser_written ftx) in
      n < length (ser_written ftx') \<and> take n (ser_written ftx') = ser_written ftx \<and>
      list_all command_frame_ok (drop n (ser_written ftx')))"

text \<open>
  A call of the catalog: one constructor per function, in the order of the source, with
  the arguments of the function. \<open>run_call\<close> makes the call and keeps the controller it
  leaves (\<open>None\<close> when the call never returns).
\<close>

datatype catalog_call =
    Call_set_frequency_main int
  | Call_get_frequency_main
  | Call_set_frequency_sub int
  | Call_get_frequency_sub
  | Call_set_mode OperatingMode int
  | Call_get_mode int
  | Call_set_ptt bool
  | Call_get_ptt_status
  | Call_set_rf_power pynumber int
  | Call_get_rf_power
  | Call_set_agc AGCMode int
  | Call_get_agc int
  | Call_set_af_gain int int
  | Call_get_af_gain int
  | Call_set_squelch int int
  | Call_get_squelch int
  | Call_get_s_meter int
  | Call_get_meter_reading int
  | Call_toggle_vfo_memory int
  | Call_set_memory_channel int int
  | Call_memory_to_vfo
  | Call_memory_to_vfo_sub
  | Call_set_split bool
  | Call_get_split
  | Call_set_clarifier bool bool int int
  | Call_band_up int
  | Call_band_down int
  | Call_select_band int int
  | Call_set_scan int int
  | Call_set_cw_keyer bool
  | Call_set_cw_speed int
  | Call_get_cw_speed
  | Call_set_cw_pitch int
  | Call_set_breakin bool
  | Call_set_if_shift int int
  | Call_set_width int int
  | Call_set_narrow bool int
  | Call_set_noise_blanker int int
  | Call_set_dnr int int
  | Call_set_dnf bool int
  | Call_get_radio_info
  | Call_get_id
  | Call_get_firmware_version int
  | Call_enable_auto_information bool
  | Call_lock_controls bool
  | Call_swap_vfo

fun run_call ::
  "(string \<Rightarrow> error + 'f) \<Rightarrow> FTX1Controller \<Rightarrow> catalog_call \<Rightarrow> FTX1Controller option" where
  "run_call fl ftx (Call_set_frequency_main a0) = map_option snd (set_frequency_main ftx a0)"
| "run_call fl ftx Call_get_frequency_main = map_option snd (get_frequency_main ftx)"
| "run_call fl ftx (Call_set_frequency_sub a0) = map_option snd (set_frequency_sub ftx a0)"
| "run_call fl ftx Call_get_frequency_sub = map_option snd (get_frequency_sub ftx)"
| "run_call fl ftx (Call_set_mode a0 a1) = map_option snd (set_mode ftx a0 a1)"
| "run_call fl ftx (Call_get_mode a0) = map_option snd (get_mode ftx a0)"
| "run_call fl ftx (Call_set_ptt a0) = map_option snd (set_ptt ftx a0)"
| "run_call fl ftx Call_get_ptt_status = map_option snd (get_ptt_status ftx)"
| "run_call fl ftx (Call_set_rf_power a0 a1) = map_option snd (set_rf_power ftx a0 a1)"
| "run_call fl ftx Call_get_rf_power = map_option snd (get_rf_power fl ftx)"
| "run_call fl ftx (Call_set_agc a0 a1) = map_option snd (set_agc ftx a0 a1)"
| "run_call fl ftx (Call_get_agc a0) = map_option snd (get_agc ftx a0)"
| "run_call fl ftx (Call_set_af_gain a0 a1) = map_option snd (set_af_gain ftx a0 a1)"
| "run_call fl ftx (Call_get_af_gain a0) = map_option snd (get_af_gain ftx a0)"
| "run_call fl ftx (Call_set_squelch a0 a1) = map_option snd (set_squelch ftx a0 a1)"
| "run_call fl ftx (Call_get_squelch a0) = map_option snd (get_squelch ftx a0)"
| "run_call fl ftx (Call_get_s_meter a0) = map_option snd (get_s_meter ftx a0)"
| "run_call fl ftx (Call_get_meter_reading a0) = map_option snd (get_meter_reading ftx a0)"
| "run_call fl ftx (Call_toggle_vfo_memory a0) = map_option snd (toggle_vfo_memory ftx a0)"
| "run_call fl ftx (Call_set_memory_channel a0 a1) = map_option snd (set_memory_channel ftx a0 a1)"
| "run_call fl ftx Call_memory_to_vfo = map_option snd (memory_to_vfo ftx)"
| "run_call fl ftx Call_memory_to_vfo_sub = map_option snd (memory_to_vfo_sub ftx)"
| "run_call fl ftx (Call_set_split a0) = map_option snd (set_split ftx a0)"
| "run_call fl ftx Call_get_split = map_option snd (get_split ftx)"
| "run_call fl ftx (Call_set_clarifier a0 a1 a2 a3) = map_option snd (set_clarifier ftx a0 a1 a2 a3)"
| "run_call fl ftx (Call_band_up a0) = map_option snd (band_up ftx a0)"
| "run_call fl ftx (Call_band_down a0) = map_option snd (band_down ftx a0)"
| "run_call fl ftx (Call_select_band a0 a1) = map_option snd (select_band ftx a0 a1)"
| "run_call fl ftx (Call_set_scan a0 a1) = map_option snd (set_scan ftx a0 a1)"
| "run_call fl ftx (Call_set_cw_keyer a0) = map_option snd (set_cw_keyer ftx a0)"
| "run_call fl ftx (Call_set_cw_speed a0) = map_option snd (set_cw_speed ftx a0)"
| "run_call fl ftx Call_get_cw_speed = map_option snd (get_cw_speed ftx)"
| "run_call fl ftx (Call_set_cw_pitch a0) = map_option snd (set_cw_pitch ftx a0)"
| "run_call fl ftx (Call_set_breakin a0) = map_option snd (set_breakin ftx a0)"
| "run_call fl ftx (Call_set_if_shift a0 a1) = map_option snd (set_if_shift ftx a0 a1)"
| "run_call fl ftx (Call_set_width a0 a1) = map_option snd (set_width ftx a0 a1)"
| "run_call fl ftx (Call_set_narrow a0 a1) = map_option snd (set_narrow ftx a0 a1)"
| "run_call fl ftx (Call_set_noise_blanker a0 a1) = map_option snd (set_noise_blanker ftx a0 a1)"
| "run_call fl ftx (Call_set_dnr a0 a1) = map_option snd (set_dnr ftx a0 a1)"
| "run_call fl ftx (Call_set_dnf a0 a1) = map_option snd (set_dnf ftx a0 a1)"
| "run_call fl ftx Call_get_radio_info = map_option snd (get_radio_info ftx)"
| "run_call fl ftx Call_get_id = map_option snd (get_id ftx)"
| "run_call fl ftx (Call_get_firmware_version a0) = map_option snd (get_firmware_version ftx a0)"
| "run_call fl ftx (Call_enable_auto_information a0) = map_option snd (enable_auto_information ftx a0)"
| "run_call fl ftx (Call_lock_controls a0) = map_option snd (lock_controls ftx a0)"
| "run_call fl ftx Call_swap_vfo = map_option snd (swap_vfo ftx)"

section \<open>Facts about the built-ins\<close>

lemma is_digit_digit_char: "d < 10 \<Longrightarrow> is_digit (digit_char d)"
  by (simp add: is_digit_def digit_char_def)

lemma digit_val_digit_char: "d < 10 \<Longrightarrow> digit_val (digit_char d) = d"
  by (simp add: digit_val_def digit_char_def)

lemma is_digit_zero: "is_digit CHR ''0''"
  by (simp add: is_digit_def)

lemma digit_val_zero: "digit_val CHR ''0'' = 0"
  by (simp add: digit_val_def)

lemma is_digit_not_special:
  assumes "is_digit c"
  shows "c \<noteq> CHR '';''" "c \<noteq> CHR ''-''" "c \<noteq> CHR ''+''" "c \<noteq> CHR ''_''"
    "\<not> py_isspace c" "is_ascii c"
  using assms by (auto simp: is_digit_def py_isspace_def is_ascii_def Let_def)

lemma dec_digits_all: "list_all is_digit (dec_digits n)"
proof (induction n rule: dec_digits.induct)
  case (1 n)
  show ?case
  proof (cases "n < 10")
    case True
    then show ?thesis by (subst dec_digits.simps) (simp add: is_digit_digit_char)
  next
    case False
    with 1 show ?thesis by (subst dec_digits.simps) (simp add: is_digit_digit_char)
  qed
qed

lemma dec_digits_nonempty: "dec_digits n \<noteq> []"
  by (subst dec_digits.simps) simp

lemma filter_is_digit: "list_all is_digit ds \<Longrightarrow> filter is_digit ds = ds"
  by (induction ds) auto

lemma digits_value_snoc:
  "is_digit c \<Longrightarrow> digits_value (ds @ [c]) = 10 * digits_value ds + digit_val c"
  by (simp add: digits_value_def)

lemma digits_value_dec: "digits_value (dec_digits n) = n"
proof (induction n rule: dec_digits.induct)
  case (1 n)
  show ?case
  proof (cases "n < 10")
    case True
    then show ?thesis
      by (subst dec_digits.simps) (simp add: digits_value_def is_digit_digit_char digit_val_digit_char)
  next
    case False
    with 1 show ?thesis
      by (subst dec_digits.simps)
         (simp add: digits_value_snoc is_digit_digit_char digit_val_digit_char)
  qed
qed

lemma digits_value_zeros: "digits_value (replicate k CHR ''0'' @ ds) = digits_value ds"
proof -
  have "foldl (\<lambda>a c. 10 * a + digit_val c) 0 (replicate k CHR ''0'') = 0"
    by (induction k) (simp_all add: digit_val_zero)
  then show ?thesis
    by (simp add: digits_value_def is_digit_zero)
qed

lemma digits_ok_all: "list_all is_digit ds \<Longrightarrow> digits_ok p ds = (ds \<noteq> [] \<or> p)"
  by (induction ds arbitrary: p) auto

lemma zfill_all: "list_all is_digit ds \<Longrightarrow> list_all is_digit (zfill w ds)"
  by (auto simp: zfill_def list_all_iff is_digit_zero)

lemma zfill_nonempty: "ds \<noteq> [] \<Longrightarrow> zfill w ds \<noteq> []"
  by (simp add: zfill_def)

lemma digits_value_zfill: "digits_value (zfill w ds) = digits_value ds"
  by (simp add: zfill_def digits_value_zeros)

lemma py_strip_id:
  assumes "s \<noteq> []" "\<not> py_isspace (hd s)" "\<not> py_isspace (last s)"
  shows "py_strip s = s"
proof -
  have a: "dropWhile py_isspace s = s"
    using assms by (simp add: dropWhile_eq_self_iff)
  have "dropWhile py_isspace (rev s) = rev s"
    using assms by (simp add: dropWhile_eq_self_iff hd_rev)
  with a show ?thesis by (simp add: py_strip_def)
qed

lemma py_int_digits:
  assumes "list_all is_digit ds" "ds \<noteq> []" "length ds \<le> 4300"
  shows "py_int ds = Inr (int (digits_value ds))"
proof -
  have h: "is_digit (hd ds)" and l: "is_digit (last ds)"
    using assms by (auto simp: list_all_iff)
  have "py_strip ds = ds"
    using assms h l by (intro py_strip_id) (auto dest: is_digit_not_special)
  moreover have "hd ds \<noteq> CHR ''-''" "hd ds \<noteq> CHR ''+''"
    using h by (auto dest: is_digit_not_special)
  ultimately show ?thesis
    using assms
    by (simp add: py_int_def Let_def digits_ok_all filter_is_digit int_max_str_digits_def)
qed

lemma length_dec_digits: "0 < k \<Longrightarrow> n < 10 ^ k \<Longrightarrow> length (dec_digits n) \<le> k"
proof (induction n arbitrary: k rule: dec_digits.induct)
  case (1 n)
  show ?case
  proof (cases "n < 10")
    case True
    with 1 show ?thesis by (subst dec_digits.simps) simp
  next
    case False
    with 1(2,3) have k: "1 < k" by (cases "k = 1") auto
    then obtain k' where k': "k = Suc k'" "0 < k'" by (cases k) auto
    with 1(3) have "n div 10 < 10 ^ k'" by (simp add: less_mult_imp_div_less mult.commute)
    with 1(1)[OF False k'(2)] have "length (dec_digits (n div 10)) \<le> k'" by simp
    with False k' show ?thesis by (subst dec_digits.simps) simp
  qed
qed

lemma length_zfill: "length (zfill w ds) = max w (length ds)"
  by (simp add: zfill_def)

section \<open>Facts about the transaction engine\<close>

lemma next_reads_Nil: "next_reads ftx []"
  by (simp add: next_reads_def)

lemma next_reads_Cons:
  "next_reads ftx (x # xs) \<longleftrightarrow>
     ser_rx ftx (ser_pos ftx) = x \<and> next_reads (ftx\<lparr>ser_pos := Suc (ser_pos ftx)\<rparr>) xs"
  by (simp add: next_reads_def map_upt_Suc del: upt_Suc)

lemma next_reads_written:
  "next_reads (ftx\<lparr>ser_written := w\<rparr>) xs = next_reads ftx xs"
  by (simp add: next_reads_def)

lemma read_loop_run:
  "next_reads ftx (map Some cs @ [e]) \<Longrightarrow> CHR '';'' \<notin> set cs \<Longrightarrow>
   e = None \<or> e = Some CHR '';'' \<Longrightarrow>
   read_loop ftx acc = Some (acc @ cs, ftx\<lparr>ser_pos := ser_pos ftx + length cs + 1\<rparr>)"
proof (induction cs arbitrary: ftx acc)
  case Nil
  then show ?case
    by (subst read_loop.simps) (auto simp: next_reads_Cons)
next
  case (Cons c cs)
  from Cons.prems have rx: "ser_rx ftx (ser_pos ftx) = Some c" and c: "c \<noteq> CHR '';''"
    and rest: "next_reads (ftx\<lparr>ser_pos := Suc (ser_pos ftx)\<rparr>) (map Some cs @ [e])"
    and cs: "CHR '';'' \<notin> set cs"
    by (auto simp: next_reads_Cons)
  from Cons.IH [OF rest cs Cons.prems(3), of "acc @ [c]"] rx c show ?case
    by (subst read_loop.simps) simp
qed

lemma read_loop_returns:
  assumes "read_loop ftx acc = Some y"
  shows "\<exists>cs e. y = (acc @ cs, ftx\<lparr>ser_pos := ser_pos ftx + length cs + 1\<rparr>) \<and>
           CHR '';'' \<notin> set cs \<and> (e = None \<or> e = Some CHR '';'') \<and>
           next_reads ftx (map Some cs @ [e])"
proof (rule read_loop.raw_induct [OF _ assms])
  fix rl ftx acc y
  assume IH: "\<And>a b z. rl a b = Some z \<Longrightarrow>
      \<exists>cs e. z = (b @ cs, a\<lparr>ser_pos := ser_pos a + length cs + 1\<rparr>) \<and>
           CHR '';'' \<notin> set cs \<and> (e = None \<or> e = Some CHR '';'') \<and>
           next_reads a (map Some cs @ [e])"
    and step: "(case ser_rx ftx (ser_pos ftx) of
        None \<Rightarrow> Some (acc, ftx\<lparr>ser_pos := Suc (ser_pos ftx)\<rparr>)
      | Some char \<Rightarrow>
          if char = CHR '';'' then Some (acc, ftx\<lparr>ser_pos := Suc (ser_pos ftx)\<rparr>)
          else rl (ftx\<lparr>ser_pos := Suc (ser_pos ftx)\<rparr>) (acc @ [char])) = Some y"
  show "\<exists>cs e. y = (acc @ cs, ftx\<lparr>ser_pos := ser_pos ftx + length cs + 1\<rparr>) \<and>
           CHR '';'' \<notin> set cs \<and> (e = None \<or> e = Some CHR '';'') \<and>
           next_reads ftx (map Some cs @ [e])"
  proof (cases "ser_rx ftx (ser_pos ftx)")
    case None
    with step have "y = (acc @ [], ftx\<lparr>ser_pos := ser_pos ftx + length ([]::string) + 1\<rparr>)"
      by simp
    moreover from None have "next_reads ftx (map Some [] @ [None])"
      by (simp add: next_reads_Cons next_reads_Nil)
    ultimately show ?thesis by (intro exI [of _ "[]"] exI [of _ None]) simp
  next
    case (Some c)
    show ?thesis
    proof (cases "c = CHR '';''")
      case True
      with Some step have "y = (acc @ [], ftx\<lparr>ser_pos := ser_pos ftx + length ([]::string) + 1\<rparr>)"
        by simp
      moreover from Some True have "next_reads ftx (map Some [] @ [Some CHR '';''])"
        by (simp add: next_reads_Cons next_reads_Nil)
      ultimately show ?thesis by (intro exI [of _ "[]"] exI [of _ "Some CHR '';''"]) simp
    next
      case False
      with Some step have "rl (ftx\<lparr>ser_pos := Suc (ser_pos ftx)\<rparr>) (acc @ [c]) = Some y"
        by simp
      from IH [OF this] obtain cs e where
        y: "y = ((acc @ [c]) @ cs, ftx\<lparr>ser_pos := Suc (ser_pos ftx)\<rparr>
               \<lparr>ser_pos := ser_pos (ftx\<lparr>ser_pos := Suc (ser_pos ftx)\<rparr>) + length cs + 1\<rparr>)"
        and cs: "CHR '';'' \<notin> set cs" and e: "e = None \<or> e = Some CHR '';''"
        and nr: "next_reads (ftx\<lparr>ser_pos := Suc (ser_pos ftx)\<rparr>) (map Some cs @ [e])"
        by (elim exE conjE)
      from y have "y = (acc @ (c # cs), ftx\<lparr>ser_pos := ser_pos ftx + length (c # cs) + 1\<rparr>)"
        by simp
      moreover from cs False have "CHR '';'' \<notin> set (c # cs)" by simp
      moreover from nr Some have "next_reads ftx (map Some (c # cs) @ [e])"
        by (simp add: next_reads_Cons)
      ultimately show ?thesis using e by (intro exI [of _ "c # cs"] exI [of _ e]) simp
    qed
  qed
qed

lemma send_command_not_ascii:
  "\<not> list_all is_ascii command \<Longrightarrow> send_command ftx command = Some (Inl UnicodeEncodeError, ftx)"
  by (simp add: send_command_def encode_ascii_def)

lemma is_ascii_semicolon: "is_ascii CHR '';''"
  by (simp add: is_ascii_def)

lemma send_command_run:
  assumes "list_all is_ascii command" "next_reads ftx (map Some cs @ [e])"
    "CHR '';'' \<notin> set cs" "e = None \<or> e = Some CHR '';''"
  shows "send_command ftx command =
    Some (decode_ascii cs,
          ftx\<lparr>ser_written := ser_written ftx @ [command @ '';''],
              ser_pos := ser_pos ftx + length cs + 1\<rparr>)"
proof -
  have "next_reads (ftx\<lparr>ser_written := ser_written ftx @ [command @ '';'']\<rparr>) (map Some cs @ [e])"
    using assms(2) by (simp add: next_reads_written)
  from read_loop_run [OF this assms(3,4), of "[]"] assms(1) show ?thesis
    by (simp add: send_command_def encode_ascii_def is_ascii_semicolon)
qed

lemma send_command_returns:
  assumes "send_command ftx command = Some (v, ftx')"
  shows "(\<not> list_all is_ascii command \<and> v = Inl UnicodeEncodeError \<and> ftx' = ftx) \<or>
         (list_all is_ascii command \<and>
          (\<exists>cs e. v = decode_ascii cs \<and> CHR '';'' \<notin> set cs \<and>
             (e = None \<or> e = Some CHR '';'') \<and> next_reads ftx (map Some cs @ [e]) \<and>
             ftx' = ftx\<lparr>ser_written := ser_written ftx @ [command @ '';''],
                        ser_pos := ser_pos ftx + length cs + 1\<rparr>))"
proof (cases "list_all is_ascii command")
  case False
  with assms show ?thesis by (simp add: send_command_not_ascii)
next
  case True
  let ?f = "ftx\<lparr>ser_written := ser_written ftx @ [command @ '';'']\<rparr>"
  from assms True obtain response where
    rl: "read_loop ?f [] = Some (response, ftx')" and v: "v = decode_ascii response"
    by (auto simp: send_command_def encode_ascii_def is_ascii_semicolon split: option.splits)
  from read_loop_returns [OF rl] obtain cs e where
    "response = cs" "ftx' = ?f\<lparr>ser_pos := ser_pos ?f + length cs + 1\<rparr>"
    "CHR '';'' \<notin> set cs" "e = None \<or> e = Some CHR '';''" "next_reads ?f (map Some cs @ [e])"
    by auto
  with v True show ?thesis
    by (auto simp: next_reads_written)
qed

section \<open>Characters of the command bodies, evaluation of examples\<close>

lemma semicolon_not_digit: "\<not> is_digit CHR '';''"
  by (simp add: is_digit_def)

lemma is_ascii_minus: "is_ascii CHR ''-''"
  by (simp add: is_ascii_def)

lemma digits_no_semicolon: "list_all is_digit ds \<Longrightarrow> CHR '';'' \<notin> set ds"
  by (auto simp: list_all_iff semicolon_not_digit)

lemma digits_ascii: "list_all is_digit ds \<Longrightarrow> list_all is_ascii ds"
  by (auto simp: list_all_iff dest: is_digit_not_special)

lemma py_str_no_semicolon: "CHR '';'' \<notin> set (py_str n)"
  using digits_no_semicolon [OF dec_digits_all] by (simp add: py_str_def)

lemma py_str_ascii: "list_all is_ascii (py_str n)"
  using digits_ascii [OF dec_digits_all] by (simp add: py_str_def is_ascii_minus)

lemma py_format_0d_no_semicolon: "CHR '';'' \<notin> set (py_format_0d w n)"
  using digits_no_semicolon [OF zfill_all [OF dec_digits_all]] by (simp add: py_format_0d_def)

lemma py_format_0d_ascii: "list_all is_ascii (py_format_0d w n)"
  using digits_ascii [OF zfill_all [OF dec_digits_all]] by (simp add: py_format_0d_def is_ascii_minus)

lemma py_format_0d_nonneg:
  assumes "0 \<le> n" "n < 10 ^ w" "0 < w"
  shows "length (py_format_0d w n) = w" "list_all is_digit (py_format_0d w n)"
    "digits_value (py_format_0d w n) = nat n"
proof -
  from assms have "nat n < 10 ^ w"
    by (simp add: nat_less_iff)
  from length_dec_digits [OF assms(3) this] assms(1)
  show "length (py_format_0d w n) = w"
    by (simp add: py_format_0d_def length_zfill)
  from assms(1) show "list_all is_digit (py_format_0d w n)"
    by (simp add: py_format_0d_def zfill_all dec_digits_all)
  from assms(1) show "digits_value (py_format_0d w n) = nat n"
    by (simp add: py_format_0d_def digits_value_zfill digits_value_dec)
qed

lemma py_int_format_0d:
  assumes "0 \<le> n" "n < 10 ^ w" "0 < w" "w \<le> 4300"
  shows "py_int (py_format_0d w n) = Inr n"
proof -
  note f = py_format_0d_nonneg [OF assms(1-3)]
  from f(1) assms(3) have "py_format_0d w n \<noteq> []" by auto
  from py_int_digits [OF f(2) this] f(1,3) assms(1,4) show ?thesis by simp
qed

lemma py_str_0: "py_str 0 = ''0''"
  by code_simp

lemma py_str_1: "py_str 1 = ''1''"
  by code_simp

lemma OperatingMode_value_chars:
  "length (OperatingMode_value mode) = 1" "CHR '';'' \<notin> set (OperatingMode_value mode)"
  "list_all is_ascii (OperatingMode_value mode)"
  by (cases mode; simp add: is_ascii_def)+

lemma AGCMode_value_chars:
  "CHR '';'' \<notin> set (AGCMode_value mode)" "list_all is_ascii (AGCMode_value mode)"
  by (cases mode; simp add: is_ascii_def)+

lemma returns_nothing_Some:
  "returns_nothing r = Some (v, ftx') \<longleftrightarrow> (\<exists>v0. r = Some (v0, ftx') \<and> v = map_sum id (\<lambda>_. ()) v0)"
  by (auto simp: returns_nothing_def)

lemma returns_decoded_Some:
  "returns_decoded f r = Some (v, ftx') \<longleftrightarrow> (\<exists>v0. r = Some (v0, ftx') \<and> v = err_bind v0 f)"
  by (auto simp: returns_decoded_def)

lemma digit_char_table:
  "digit_char 0 = CHR ''0''" "digit_char 1 = CHR ''1''" "digit_char 2 = CHR ''2''"
  "digit_char 3 = CHR ''3''" "digit_char 4 = CHR ''4''" "digit_char 5 = CHR ''5''"
  "digit_char 6 = CHR ''6''" "digit_char 7 = CHR ''7''" "digit_char 8 = CHR ''8''"
  "digit_char 9 = CHR ''9''" "digit_char (Suc 0) = CHR ''1''"
  by (simp_all add: digit_char_def char_of_eq_iff)

lemma replicate_numeral: "replicate (numeral k) x = x # replicate (pred_numeral k) x"
  by (simp add: numeral_eq_Suc)

lemma next_reads_script:
  "next_reads \<lparr>ser_written = w, ser_rx = script xs, ser_pos = 0\<rparr> xs"
  by (auto simp: next_reads_def script_def intro!: nth_equalityI)

lemma py_format_0d_9_example: "py_format_0d 9 14250000 = ''014250000''"
  by (simp add: py_format_0d_def zfill_def dec_digits.simps digit_char_table replicate_numeral)

lemma set_frequency_main_command_example: "set_frequency_main_command 14250000 = ''FA014250000''"
  by (simp add: set_frequency_main_command_def py_format_0d_9_example)


lemma set_frequency_sub_command_example: "set_frequency_sub_command 14250000 = ''FB014250000''"
  by (simp add: set_frequency_sub_command_def py_format_0d_9_example)

section \<open>Transactions of the setters\<close>

lemma next_reads_append:
  "next_reads ftx (xs @ ys) \<longleftrightarrow>
     next_reads ftx xs \<and> next_reads (ftx\<lparr>ser_pos := ser_pos ftx + length xs\<rparr>) ys"
proof (induction xs arbitrary: ftx)
  case Nil
  show ?case by (simp add: next_reads_Nil)
next
  case (Cons x xs)
  show ?case by (simp add: next_reads_Cons Cons.IH)
qed

lemma next_reads_moved:
  "next_reads (ftx\<lparr>ser_written := w, ser_pos := p\<rparr>) xs = next_reads (ftx\<lparr>ser_pos := p\<rparr>) xs"
  by (simp add: next_reads_def)

lemma next_reads_script_timeouts:
  "next_reads \<lparr>ser_written = w, ser_rx = script xs, ser_pos = 0\<rparr> (xs @ replicate k None)"
  by (auto simp: next_reads_def script_def nth_append intro!: nth_equalityI)

lemma next_reads_silent_1:
  "next_reads \<lparr>ser_written = [], ser_rx = script [], ser_pos = 0\<rparr> (map Some [] @ [None])"
  using next_reads_script_timeouts [of "[]" "[]" "Suc 0"] by simp

lemma next_reads_silent_2:
  "next_reads \<lparr>ser_written = [], ser_rx = script [], ser_pos = 0\<rparr>
     (map Some [] @ [None] @ map Some [] @ [None])"
  using next_reads_script_timeouts [of "[]" "[]" "Suc (Suc 0)"] by simp


lemma send_command_written:
  assumes "send_command ftx command = Some (v, ftx')" "list_all is_ascii command"
  shows "ser_written ftx' = ser_written ftx @ [command @ '';'']"
  using send_command_returns [OF assms(1)] assms(2)
  by (elim disjE conjE exE) simp_all

lemma setter_run:
  assumes "list_all is_ascii command" "next_reads ftx (map Some cs @ [e])"
    "CHR '';'' \<notin> set cs" "e = None \<or> e = Some CHR '';''"
  shows "returns_nothing (send_command ftx command) =
    Some (map_sum id (\<lambda>_. ()) (decode_ascii cs),
          ftx\<lparr>ser_written := ser_written ftx @ [command @ '';''],
              ser_pos := ser_pos ftx + length cs + 1\<rparr>)"
  using send_command_run [OF assms] by (simp add: returns_nothing_def)

lemma decode_ascii_Nil: "decode_ascii [] = Inr []"
  by (simp add: decode_ascii_def)

lemma set_frequency_main_command_ascii: "list_all is_ascii (set_frequency_main_command f)"
  by (simp add: set_frequency_main_command_def py_format_0d_ascii is_ascii_def)

lemma set_frequency_sub_command_ascii: "list_all is_ascii (set_frequency_sub_command f)"
  by (simp add: set_frequency_sub_command_def py_format_0d_ascii is_ascii_def)

lemma set_if_shift_command_ascii: "list_all is_ascii (set_if_shift_command offset_hz side)"
  by (simp add: set_if_shift_command_def Let_def py_format_0d_ascii py_str_ascii is_ascii_def)

lemma set_clarifier_flags_command_ascii:
  "list_all is_ascii (set_clarifier_flags_command rx_on tx_on side)"
  by (simp add: set_clarifier_flags_command_def Let_def py_str_ascii is_ascii_def)

lemma set_clarifier_offset_command_ascii:
  "list_all is_ascii (set_clarifier_offset_command offset_hz side)"
  by (simp add: set_clarifier_offset_command_def Let_def py_format_0d_ascii py_str_ascii
      is_ascii_def)

lemma set_clarifier_run:
  assumes "next_reads ftx (map Some cs1 @ [e1] @ map Some cs2 @ [e2])"
    and "CHR '';'' \<notin> set cs1" "e1 = None \<or> e1 = Some CHR '';''" "list_all is_ascii cs1"
    and "CHR '';'' \<notin> set cs2" "e2 = None \<or> e2 = Some CHR '';''"
  shows "set_clarifier ftx rx_on tx_on offset_hz side =
    Some (map_sum id (\<lambda>_. ()) (decode_ascii cs2),
          ftx\<lparr>ser_written := ser_written ftx @
                 [set_clarifier_flags_command rx_on tx_on side @ '';'',
                  set_clarifier_offset_command offset_hz side @ '';''],
              ser_pos := ser_pos ftx + length cs1 + length cs2 + 2\<rparr>)"
proof -
  let ?c1 = "set_clarifier_flags_command rx_on tx_on side"
  let ?c2 = "set_clarifier_offset_command offset_hz side"
  let ?f1 = "ftx\<lparr>ser_written := ser_written ftx @ [?c1 @ '';''],
                 ser_pos := ser_pos ftx + length cs1 + 1\<rparr>"
  from assms(1) have "next_reads ftx ((map Some cs1 @ [e1]) @ (map Some cs2 @ [e2]))"
    by simp
  then have n1: "next_reads ftx (map Some cs1 @ [e1])"
    and n2: "next_reads (ftx\<lparr>ser_pos := ser_pos ftx + length cs1 + 1\<rparr>) (map Some cs2 @ [e2])"
    unfolding next_reads_append by simp_all
  from n2 have n2': "next_reads ?f1 (map Some cs2 @ [e2])"
    by (simp add: next_reads_moved)
  have s1: "send_command ftx ?c1 = Some (Inr cs1, ?f1)"
    using send_command_run [OF set_clarifier_flags_command_ascii n1 assms(2,3)] assms(4)
    by (simp add: decode_ascii_def)
  have s2: "returns_nothing (send_command ?f1 ?c2) =
    Some (map_sum id (\<lambda>_. ()) (decode_ascii cs2),
          ?f1\<lparr>ser_written := ser_written ?f1 @ [?c2 @ '';''],
              ser_pos := ser_pos ?f1 + length cs2 + 1\<rparr>)"
    by (rule setter_run [OF set_clarifier_offset_command_ascii n2' assms(5,6)])
  show ?thesis
    unfolding set_clarifier_def s1 using s2 by simp
qed

section \<open>Properties of the catalog\<close>

lemma py_format_0d_4_zero: "py_format_0d 4 0 = ''0000''"
  by code_simp

text \<open>
  C10. For \<open>offset_hz = 0\<close> both signed-field encoders take the branch \<open>offset_hz >= 0\<close>: the
  sign character is \<open>+\<close> and the field is \<open>+0000\<close>, whatever the side selector.
  \<open>set_if_shift\<close> with offset 0 writes the frame \<open>IS<side>0+0000;\<close>, and \<open>set_clarifier\<close> with
  offset 0 writes, as its second frame, \<open>CF<side>01+0000;\<close>. The port is one that answers
  each command with some bytes and then the terminator or a timeout.
\<close>

theorem zero_offset_encodes_plus:
  assumes "next_reads ftx (map Some cs @ [e])"
    and "CHR '';'' \<notin> set cs" "e = None \<or> e = Some CHR '';''"
    and "next_reads g (map Some cs1 @ [e1] @ map Some cs2 @ [e2])"
    and "CHR '';'' \<notin> set cs1" "e1 = None \<or> e1 = Some CHR '';''" "list_all is_ascii cs1"
    and "CHR '';'' \<notin> set cs2" "e2 = None \<or> e2 = Some CHR '';''"
  shows "set_clarifier_offset_command 0 side = ''CF'' @ py_str side @ ''01'' @ ''+0000'' \<and>
    set_if_shift_command 0 side = ''IS'' @ py_str side @ ''0'' @ ''+0000'' \<and>
    set_if_shift ftx 0 side =
      Some (map_sum id (\<lambda>_. ()) (decode_ascii cs),
            ftx\<lparr>ser_written := ser_written ftx @ [''IS'' @ py_str side @ ''0'' @ ''+0000'' @ '';''],
                ser_pos := ser_pos ftx + length cs + 1\<rparr>) \<and>
    set_clarifier g rx_on tx_on 0 side =
      Some (map_sum id (\<lambda>_. ()) (decode_ascii cs2),
            g\<lparr>ser_written := ser_written g @
                 [set_clarifier_flags_command rx_on tx_on side @ '';'',
                  ''CF'' @ py_str side @ ''01'' @ ''+0000'' @ '';''],
              ser_pos := ser_pos g + length cs1 + length cs2 + 2\<rparr>)"
proof -
  have c: "set_clarifier_offset_command 0 side = ''CF'' @ py_str side @ ''01'' @ ''+0000''"
    and i: "set_if_shift_command 0 side = ''IS'' @ py_str side @ ''0'' @ ''+0000''"
    by (simp_all add: set_clarifier_offset_command_def set_if_shift_command_def
        py_format_0d_4_zero)
  have "set_if_shift ftx 0 side =
      Some (map_sum id (\<lambda>_. ()) (decode_ascii cs),
            ftx\<lparr>ser_written := ser_written ftx @ [set_if_shift_command 0 side @ '';''],
                ser_pos := ser_pos ftx + length cs + 1\<rparr>)"
    unfolding set_if_shift_def
    by (rule setter_run [OF set_if_shift_command_ascii assms(1-3)])
  moreover note set_clarifier_run [OF assms(4-9), of rx_on tx_on 0 side]
  ultimately show ?thesis
    using c i by simp
qed

theorem zero_offset_encodes_plus_witness:
  "set_if_shift \<lparr>ser_written = [], ser_rx = script [], ser_pos = 0\<rparr> 0 0 =
     Some (Inr (), \<lparr>ser_written = [''IS00+0000;''], ser_rx = script [], ser_pos = 1\<rparr>) \<and>
   set_clarifier \<lparr>ser_written = [], ser_rx = script [], ser_pos = 0\<rparr> True False 0 0 =
     Some (Inr (), \<lparr>ser_written = [''CF00010000;'', ''CF001+0000;''], ser_rx = script [],
                    ser_pos = 2\<rparr>)"
  using zero_offset_encodes_plus [of "\<lparr>ser_written = [], ser_rx = script [], ser_pos = 0\<rparr>" "[]" None
      "\<lparr>ser_written = [], ser_rx = script [], ser_pos = 0\<rparr>" "[]" None "[]" None 0 True False,
      OF next_reads_silent_1 _ _ next_reads_silent_2]
  by (simp add: decode_ascii_Nil py_str_0 set_clarifier_flags_command_def)

text \<open>
  C3. A channel outside 1..99 makes \<open>set_memory_channel\<close> raise \<open>ValueError\<close> and leaves the
  controller as it was: no frame is written to the port and no byte is read.
\<close>

theorem set_memory_channel_rejects:
  "\<not> (1 \<le> channel \<and> channel \<le> 99) \<Longrightarrow>
   set_memory_channel ftx channel side = Some (Inl ValueError, ftx)"
  by (simp add: set_memory_channel_def)

theorem set_memory_channel_rejects_witness:
  "set_memory_channel \<lparr>ser_written = [], ser_rx = script [], ser_pos = 0\<rparr> 0 0
     = Some (Inl ValueError, \<lparr>ser_written = [], ser_rx = script [], ser_pos = 0\<rparr>)
   \<and> set_memory_channel \<lparr>ser_written = [], ser_rx = script [], ser_pos = 0\<rparr> 100 1
     = Some (Inl ValueError, \<lparr>ser_written = [], ser_rx = script [], ser_pos = 0\<rparr>)
   \<and> set_memory_channel \<lparr>ser_written = [], ser_rx = script [], ser_pos = 0\<rparr> (- 5) 0
     = Some (Inl ValueError, \<lparr>ser_written = [], ser_rx = script [], ser_pos = 0\<rparr>)"
  using set_memory_channel_rejects [of 0 "\<lparr>ser_written = [], ser_rx = script [], ser_pos = 0\<rparr>" 0]
    set_memory_channel_rejects [of 100 "\<lparr>ser_written = [], ser_rx = script [], ser_pos = 0\<rparr>" 1]
    set_memory_channel_rejects [of "- 5" "\<lparr>ser_written = [], ser_rx = script [], ser_pos = 0\<rparr>" 0]
  by simp

text \<open>
  C2. For every frequency \<open>f\<close> with \<open>30000 \<le> f \<le> 470000000\<close>: \<open>set_frequency_main\<close> writes the
  frame \<open>FA\<close>, nine decimal digits, \<open>;\<close> to the port (whatever the port answers, as long as
  the answer ends with the terminator or a timeout); the decoder of \<open>get_frequency_main\<close>
  applied to the body of that frame returns \<open>f\<close>; and when the port delivers that body
  followed by the terminator, \<open>get_frequency_main\<close> itself sends \<open>FA;\<close> and returns \<open>f\<close>.
  The same holds for the SUB side with \<open>set_frequency_sub\<close>, \<open>get_frequency_sub\<close> and \<open>FB\<close>.
\<close>

theorem frequency_round_trip:
  assumes "30000 \<le> f" "f \<le> 470000000"
    and "next_reads ftx (map Some (set_frequency_main_command f) @ [Some CHR '';''])"
    and "next_reads ftx' (map Some (set_frequency_sub_command f) @ [Some CHR '';''])"
    and "next_reads g (map Some cs @ [e])"
    and "CHR '';'' \<notin> set cs" "e = None \<or> e = Some CHR '';''"
  shows "set_frequency_main_command f = ''FA'' @ py_format_0d 9 f \<and>
     set_frequency_sub_command f = ''FB'' @ py_format_0d 9 f \<and>
     length (py_format_0d 9 f) = 9 \<and> list_all is_digit (py_format_0d 9 f) \<and>
     set_frequency_main g f =
       Some (map_sum id (\<lambda>_. ()) (decode_ascii cs),
             g\<lparr>ser_written := ser_written g @ [''FA'' @ py_format_0d 9 f @ '';''],
               ser_pos := ser_pos g + length cs + 1\<rparr>) \<and>
     set_frequency_sub g f =
       Some (map_sum id (\<lambda>_. ()) (decode_ascii cs),
             g\<lparr>ser_written := ser_written g @ [''FB'' @ py_format_0d 9 f @ '';''],
               ser_pos := ser_pos g + length cs + 1\<rparr>) \<and>
     get_frequency_main_decode (set_frequency_main_command f) = Inr f \<and>
     get_frequency_sub_decode (set_frequency_sub_command f) = Inr f \<and>
     get_frequency_main ftx =
       Some (Inr f, ftx\<lparr>ser_written := ser_written ftx @ [''FA;''], ser_pos := ser_pos ftx + 12\<rparr>) \<and>
     get_frequency_sub ftx' =
       Some (Inr f, ftx'\<lparr>ser_written := ser_written ftx' @ [''FB;''], ser_pos := ser_pos ftx' + 12\<rparr>)"
proof -
  from assms(1,2) have r: "0 \<le> f" "f < 10 ^ 9" by simp_all
  note fm = py_format_0d_nonneg [OF r, simplified]
  have pi: "py_int (py_format_0d 9 f) = Inr f"
    by (rule py_int_format_0d [OF r]) simp_all
  have dm: "get_frequency_main_decode (set_frequency_main_command f) = Inr f"
    by (simp add: get_frequency_main_decode_def set_frequency_main_command_def py_slice_from_def pi)
  have ds: "get_frequency_sub_decode (set_frequency_sub_command f) = Inr f"
    by (simp add: get_frequency_sub_decode_def set_frequency_sub_command_def py_slice_from_def pi)
  have am: "list_all is_ascii (set_frequency_main_command f)"
    and nm: "CHR '';'' \<notin> set (set_frequency_main_command f)"
    and lm: "length (set_frequency_main_command f) = 11"
    by (simp_all add: set_frequency_main_command_def py_format_0d_ascii py_format_0d_no_semicolon
        is_ascii_def fm)
  have as: "list_all is_ascii (set_frequency_sub_command f)"
    and ns: "CHR '';'' \<notin> set (set_frequency_sub_command f)"
    and ls: "length (set_frequency_sub_command f) = 11"
    by (simp_all add: set_frequency_sub_command_def py_format_0d_ascii py_format_0d_no_semicolon
        is_ascii_def fm)
  have "list_all is_ascii ''FA''" "list_all is_ascii ''FB''"
    by (simp_all add: is_ascii_def)
  note sm = send_command_run [OF this(1) assms(3) nm] send_command_run [OF this(2) assms(4) ns]
  have gm: "get_frequency_main ftx =
       Some (Inr f, ftx\<lparr>ser_written := ser_written ftx @ [''FA;''], ser_pos := ser_pos ftx + 12\<rparr>)"
    using sm(1) dm am lm by (simp add: get_frequency_main_def returns_decoded_def decode_ascii_def)
  have gs: "get_frequency_sub ftx' =
       Some (Inr f, ftx'\<lparr>ser_written := ser_written ftx' @ [''FB;''], ser_pos := ser_pos ftx' + 12\<rparr>)"
    using sm(2) ds as ls by (simp add: get_frequency_sub_def returns_decoded_def decode_ascii_def)
  have wm: "set_frequency_main g f =
       Some (map_sum id (\<lambda>_. ()) (decode_ascii cs),
             g\<lparr>ser_written := ser_written g @ [set_frequency_main_command f @ '';''],
               ser_pos := ser_pos g + length cs + 1\<rparr>)"
    unfolding set_frequency_main_def
    by (rule setter_run [OF set_frequency_main_command_ascii assms(5-7)])
  have ws: "set_frequency_sub g f =
       Some (map_sum id (\<lambda>_. ()) (decode_ascii cs),
             g\<lparr>ser_written := ser_written g @ [set_frequency_sub_command f @ '';''],
               ser_pos := ser_pos g + length cs + 1\<rparr>)"
    unfolding set_frequency_sub_def
    by (rule setter_run [OF set_frequency_sub_command_ascii assms(5-7)])
  show ?thesis
    using fm dm ds gm gs wm ws
    by (simp add: set_frequency_main_command_def set_frequency_sub_command_def)
qed

theorem frequency_round_trip_witness:
  "set_frequency_main \<lparr>ser_written = [], ser_rx = script [], ser_pos = 0\<rparr> 14250000
     = Some (Inr (), \<lparr>ser_written = [''FA014250000;''], ser_rx = script [], ser_pos = 1\<rparr>) \<and>
   set_frequency_sub \<lparr>ser_written = [], ser_rx = script [], ser_pos = 0\<rparr> 14250000
     = Some (Inr (), \<lparr>ser_written = [''FB014250000;''], ser_rx = script [], ser_pos = 1\<rparr>) \<and>
   get_frequency_main \<lparr>ser_written = [], ser_rx = script (map Some ''FA014250000;''), ser_pos = 0\<rparr>
     = Some (Inr 14250000,
         \<lparr>ser_written = [''FA;''], ser_rx = script (map Some ''FA014250000;''), ser_pos = 12\<rparr>) \<and>
   get_frequency_sub \<lparr>ser_written = [], ser_rx = script (map Some ''FB014250000;''), ser_pos = 0\<rparr>
     = Some (Inr 14250000,
         \<lparr>ser_written = [''FB;''], ser_rx = script (map Some ''FB014250000;''), ser_pos = 12\<rparr>) \<and>
   get_frequency_main_decode ''FA014250000'' = Inr 14250000 \<and>
   get_frequency_sub_decode ''FB014250000'' = Inr 14250000"
proof -
  have h1: "next_reads \<lparr>ser_written = [], ser_rx = script (map Some ''FA014250000;''), ser_pos = 0\<rparr>
      (map Some (set_frequency_main_command 14250000) @ [Some CHR '';''])"
    using next_reads_script [of "[]" "map Some ''FA014250000;''"]
    by (simp add: set_frequency_main_command_example)
  have h2: "next_reads \<lparr>ser_written = [], ser_rx = script (map Some ''FB014250000;''), ser_pos = 0\<rparr>
      (map Some (set_frequency_sub_command 14250000) @ [Some CHR '';''])"
    using next_reads_script [of "[]" "map Some ''FB014250000;''"]
    by (simp add: set_frequency_sub_command_example)
  show ?thesis
    using frequency_round_trip [of 14250000 _ _ _ "[]" None, OF _ _ h1 h2 next_reads_silent_1]
    by (simp add: set_frequency_main_command_example set_frequency_sub_command_example
        py_format_0d_9_example decode_ascii_Nil)
qed





lemma set_mode_command_ascii: "list_all is_ascii (set_mode_command mode side)"
  by (simp add: set_mode_command_def py_str_ascii OperatingMode_value_chars is_ascii_def)

lemma set_mode_command_no_semicolon: "CHR '';'' \<notin> set (set_mode_command mode side)"
  by (simp add: set_mode_command_def py_str_no_semicolon OperatingMode_value_chars)

text \<open>
  C8. For a side selector 0 or 1 and every member of \<open>OperatingMode\<close>, the body that
  \<open>set_mode\<close> sends is \<open>MD\<close>, the side digit and the one character of the mode; it contains
  no terminator, and the frame \<open>set_mode\<close> writes to the port is that body followed by one
  \<open>;\<close> (on a port that answers with some bytes and then the terminator or a timeout).
\<close>

theorem set_mode_frame:
  assumes "side = 0 \<or> side = 1"
    and "next_reads ftx (map Some cs @ [e])"
    and "CHR '';'' \<notin> set cs" "e = None \<or> e = Some CHR '';''"
  shows "set_mode_command mode side =
      ''MD'' @ (if side = 0 then ''0'' else ''1'') @ OperatingMode_value mode \<and>
    length (OperatingMode_value mode) = 1 \<and>
    CHR '';'' \<notin> set (set_mode_command mode side) \<and>
    set_mode ftx mode side =
      Some (map_sum id (\<lambda>_. ()) (decode_ascii cs),
            ftx\<lparr>ser_written := ser_written ftx @
                   [''MD'' @ (if side = 0 then ''0'' else ''1'') @ OperatingMode_value mode @ '';''],
                ser_pos := ser_pos ftx + length cs + 1\<rparr>)"
proof -
  have b: "set_mode_command mode side =
      ''MD'' @ (if side = 0 then ''0'' else ''1'') @ OperatingMode_value mode"
  proof (cases "side = 0")
    case True
    then show ?thesis by (simp add: set_mode_command_def py_str_0)
  next
    case False
    with assms(1) have "side = 1" by simp
    then show ?thesis by (simp add: set_mode_command_def py_str_1)
  qed
  have r: "set_mode ftx mode side =
      Some (map_sum id (\<lambda>_. ()) (decode_ascii cs),
            ftx\<lparr>ser_written := ser_written ftx @ [set_mode_command mode side @ '';''],
                ser_pos := ser_pos ftx + length cs + 1\<rparr>)"
    unfolding set_mode_def by (rule setter_run [OF set_mode_command_ascii assms(2-4)])
  have l: "length (OperatingMode_value mode) = 1"
    by (rule OperatingMode_value_chars)
  have n: "CHR '';'' \<notin> set (set_mode_command mode side)"
    by (rule set_mode_command_no_semicolon)
  from r have r': "set_mode ftx mode side =
      Some (map_sum id (\<lambda>_. ()) (decode_ascii cs),
            ftx\<lparr>ser_written := ser_written ftx @
                   [''MD'' @ (if side = 0 then ''0'' else ''1'') @ OperatingMode_value mode @ '';''],
                ser_pos := ser_pos ftx + length cs + 1\<rparr>)"
    unfolding b by simp
  from b l n r' show ?thesis by (intro conjI)
qed

theorem set_mode_frame_witness:
  "set_mode \<lparr>ser_written = [], ser_rx = script [], ser_pos = 0\<rparr> USB 0 =
     Some (Inr (), \<lparr>ser_written = [''MD02;''], ser_rx = script [], ser_pos = 1\<rparr>) \<and>
   set_mode \<lparr>ser_written = [], ser_rx = script [], ser_pos = 0\<rparr> CW_U 1 =
     Some (Inr (), \<lparr>ser_written = [''MD13;''], ser_rx = script [], ser_pos = 1\<rparr>)"
  using set_mode_frame [of 0 "\<lparr>ser_written = [], ser_rx = script [], ser_pos = 0\<rparr>" "[]" None USB,
      OF _ next_reads_silent_1]
    set_mode_frame [of 1 "\<lparr>ser_written = [], ser_rx = script [], ser_pos = 0\<rparr>" "[]" None CW_U,
      OF _ next_reads_silent_1]
  by (simp add: decode_ascii_Nil)

lemma set_clarifier_written:
  assumes "set_clarifier h rx_on tx_on offset_hz side = Some (v, h')"
  shows "(ser_written h' = ser_written h @ [set_clarifier_flags_command rx_on tx_on side @ '';'']
          \<and> v \<noteq> Inr ()) \<or>
         ser_written h' = ser_written h @
           [set_clarifier_flags_command rx_on tx_on side @ '';'',
            set_clarifier_offset_command offset_hz side @ '';'']"
proof -
  let ?c1 = "set_clarifier_flags_command rx_on tx_on side"
  let ?c2 = "set_clarifier_offset_command offset_hz side"
  from assms have "send_command h ?c1 \<noteq> None"
    by (cases "send_command h ?c1") (simp_all add: set_clarifier_def)
  then obtain v1 h1 where s1: "send_command h ?c1 = Some (v1, h1)"
    by auto
  from send_command_written [OF s1 set_clarifier_flags_command_ascii]
  have w1: "ser_written h1 = ser_written h @ [?c1 @ '';'']" .
  show ?thesis
  proof (cases v1)
    case (Inl err)
    with assms s1 have "v = Inl err" "h' = h1"
      by (simp_all add: set_clarifier_def)
    with w1 show ?thesis by simp
  next
    case (Inr reply)
    with assms s1 have "returns_nothing (send_command h1 ?c2) = Some (v, h')"
      by (simp add: set_clarifier_def)
    then obtain v0 where "send_command h1 ?c2 = Some (v0, h')"
      unfolding returns_nothing_Some by (elim exE conjE)
    from send_command_written [OF this set_clarifier_offset_command_ascii] w1
    show ?thesis by simp
  qed
qed







lemma prefixed_format_ascii:
  "list_all is_ascii pre \<Longrightarrow> list_all is_ascii (pre @ py_format_0d w n)"
  by (simp add: py_format_0d_ascii)

lemma is_ascii_KS: "list_all is_ascii ''KS''"
  by (simp add: is_ascii_def)

lemma is_ascii_KP: "list_all is_ascii ''KP''"
  by (simp add: is_ascii_def)

lemma out_of_range_formats:
  "py_format_0d 9 0 = ''000000000''" "py_format_0d 3 0 = ''000''"
  "py_format_0d 2 (- 10) = ''-10''" "py_format_0d 4 5000 = ''5000''"
  "py_format_0d 4 10000 = ''10000''"
  by (simp_all add: py_format_0d_def zfill_def dec_digits.simps digit_char_table replicate_numeral)

text \<open>
  C5. The setters with a documented numeric range send whatever they are given: a
  frequency of 0 Hz, a CW speed of 0 WPM, a CW pitch of 200 Hz, an IF shift of 5000 Hz
  and a clarifier offset of 10000 Hz, all outside the documented ranges, return normally
  and their frames are written to the port. Only \<open>set_memory_channel\<close> has a range check.
\<close>

theorem out_of_range_arguments_are_sent:
  "set_frequency_main \<lparr>ser_written = [], ser_rx = script [], ser_pos = 0\<rparr> 0 =
     Some (Inr (), \<lparr>ser_written = [''FA000000000;''], ser_rx = script [], ser_pos = 1\<rparr>) \<and>
   set_cw_speed \<lparr>ser_written = [], ser_rx = script [], ser_pos = 0\<rparr> 0 =
     Some (Inr (), \<lparr>ser_written = [''KS000;''], ser_rx = script [], ser_pos = 1\<rparr>) \<and>
   set_cw_pitch \<lparr>ser_written = [], ser_rx = script [], ser_pos = 0\<rparr> 200 =
     Some (Inr (), \<lparr>ser_written = [''KP-10;''], ser_rx = script [], ser_pos = 1\<rparr>) \<and>
   set_if_shift \<lparr>ser_written = [], ser_rx = script [], ser_pos = 0\<rparr> 5000 0 =
     Some (Inr (), \<lparr>ser_written = [''IS00+5000;''], ser_rx = script [], ser_pos = 1\<rparr>) \<and>
   set_clarifier \<lparr>ser_written = [], ser_rx = script [], ser_pos = 0\<rparr> True False 10000 0 =
     Some (Inr (), \<lparr>ser_written = [''CF00010000;'', ''CF001+10000;''], ser_rx = script [],
                    ser_pos = 2\<rparr>)"
proof (intro conjI)
  show "set_frequency_main \<lparr>ser_written = [], ser_rx = script [], ser_pos = 0\<rparr> 0 =
     Some (Inr (), \<lparr>ser_written = [''FA000000000;''], ser_rx = script [], ser_pos = 1\<rparr>)"
    using setter_run [OF set_frequency_main_command_ascii next_reads_silent_1, of 0]
    by (simp add: set_frequency_main_def set_frequency_main_command_def decode_ascii_Nil
        out_of_range_formats)
  show "set_cw_speed \<lparr>ser_written = [], ser_rx = script [], ser_pos = 0\<rparr> 0 =
     Some (Inr (), \<lparr>ser_written = [''KS000;''], ser_rx = script [], ser_pos = 1\<rparr>)"
    using setter_run [OF prefixed_format_ascii [OF is_ascii_KS] next_reads_silent_1, of 3 0]
    by (simp add: set_cw_speed_def decode_ascii_Nil out_of_range_formats)
  show "set_cw_pitch \<lparr>ser_written = [], ser_rx = script [], ser_pos = 0\<rparr> 200 =
     Some (Inr (), \<lparr>ser_written = [''KP-10;''], ser_rx = script [], ser_pos = 1\<rparr>)"
    using setter_run [OF prefixed_format_ascii [OF is_ascii_KP] next_reads_silent_1, of 2 "- 10"]
    by (simp add: set_cw_pitch_def decode_ascii_Nil out_of_range_formats)
  show "set_if_shift \<lparr>ser_written = [], ser_rx = script [], ser_pos = 0\<rparr> 5000 0 =
     Some (Inr (), \<lparr>ser_written = [''IS00+5000;''], ser_rx = script [], ser_pos = 1\<rparr>)"
    using setter_run [OF set_if_shift_command_ascii next_reads_silent_1, of 5000 0]
    by (simp add: set_if_shift_def set_if_shift_command_def decode_ascii_Nil py_str_0
        out_of_range_formats)
  show "set_clarifier \<lparr>ser_written = [], ser_rx = script [], ser_pos = 0\<rparr> True False 10000 0 =
     Some (Inr (), \<lparr>ser_written = [''CF00010000;'', ''CF001+10000;''], ser_rx = script [],
                    ser_pos = 2\<rparr>)"
    using set_clarifier_run [OF next_reads_silent_2, of True False 10000 0]
    by (simp add: decode_ascii_Nil set_clarifier_flags_command_def
        set_clarifier_offset_command_def py_str_0 out_of_range_formats)
qed

lemma getter_run:
  assumes "list_all is_ascii command" "next_reads ftx (map Some cs @ [e])"
    "CHR '';'' \<notin> set cs" "e = None \<or> e = Some CHR '';''" "list_all is_ascii cs"
  shows "returns_decoded f (send_command ftx command) =
    Some (f cs, ftx\<lparr>ser_written := ser_written ftx @ [command @ '';''],
                   ser_pos := ser_pos ftx + length cs + 1\<rparr>)"
  using send_command_run [OF assms(1-4)] assms(5)
  by (simp add: returns_decoded_def decode_ascii_def)

lemma getter_result:
  assumes "list_all is_ascii command" "next_reads ftx (map Some cs @ [e])"
    "CHR '';'' \<notin> set cs" "e = None \<or> e = Some CHR '';''" "list_all is_ascii cs"
  shows "map_option fst (returns_decoded f (send_command ftx command)) = Some (f cs)"
  by (simp add: getter_run [OF assms])


lemma py_strip_Nil: "py_strip [] = []"
  by (simp add: py_strip_def)



lemma is_ascii_mnemonics:
  "list_all is_ascii ''FA''" "list_all is_ascii ''FB''" "list_all is_ascii ''TX''"
  "list_all is_ascii ''PC''" "list_all is_ascii ''ST''" "list_all is_ascii ''KS''"
  "list_all is_ascii ''IF''" "list_all is_ascii ''ID''"
  by (simp_all add: is_ascii_def)

lemma prefixed_str_ascii: "list_all is_ascii pre \<Longrightarrow> list_all is_ascii (pre @ py_str n)"
  by (simp add: py_str_ascii)

lemma is_ascii_side_mnemonics:
  "list_all is_ascii (''MD'' @ py_str n)" "list_all is_ascii (''GT'' @ py_str n)"
  "list_all is_ascii (''AG'' @ py_str n)" "list_all is_ascii (''SQ'' @ py_str n)"
  "list_all is_ascii (''SM'' @ py_str n)" "list_all is_ascii (''RM'' @ py_str n)"
  "list_all is_ascii (''VE'' @ py_str n)"
  by (simp_all add: py_str_ascii is_ascii_def)





lemma clarifier_field:
  assumes "\<bar>offset_hz\<bar> \<le> 9999"
  shows "length (py_format_0d 4 \<bar>offset_hz\<bar>) = 4"
    "list_all is_digit (py_format_0d 4 \<bar>offset_hz\<bar>)"
    "py_int (py_format_0d 4 \<bar>offset_hz\<bar>) = Inr \<bar>offset_hz\<bar>"
proof -
  from assms have r: "0 \<le> \<bar>offset_hz\<bar>" "\<bar>offset_hz\<bar> < 10 ^ 4" by simp_all
  from py_format_0d_nonneg [OF r] show "length (py_format_0d 4 \<bar>offset_hz\<bar>) = 4"
    "list_all is_digit (py_format_0d 4 \<bar>offset_hz\<bar>)" by simp_all
  show "py_int (py_format_0d 4 \<bar>offset_hz\<bar>) = Inr \<bar>offset_hz\<bar>"
    by (rule py_int_format_0d [OF r]) simp_all
qed

lemma get_radio_info_decode_clarifier:
  assumes "29 \<le> length r" "py_int (py_slice r 7 16) = Inr fr"
    and "py_slice r 16 21 = s # ds" "py_int ds = Inr m"
  shows "\<exists>info. get_radio_info_decode r = Inr info \<and> info_clar_direction info = s \<and>
    info_clar_offset info = m \<and> info_frequency info = fr"
proof -
  from assms(1) have d: "drop 16 r = r ! 16 # drop 17 r"
    using Cons_nth_drop_Suc [of 16 r] by simp
  from assms(3) have "r ! 16 = s" "take 4 (drop 17 r) = ds"
    by (simp_all add: py_slice_def d)
  with assms(1,2,4) show ?thesis
    by (simp add: get_radio_info_decode_def py_index_def py_slice_def)
qed


text \<open>
  C6. For \<open>offset_hz\<close> in \<open>{-9995, -1, 0, 1, 9995}\<close> the offset frame that \<open>set_clarifier\<close>
  writes carries one sign character, \<open>+\<close> or \<open>-\<close>, followed by exactly four decimal digits;
  and \<open>get_radio_info\<close>, on a port that delivers a well-formed info reply whose characters
  16 to 20 echo that field, returns \<open>clar_direction\<close> equal to the sign character and
  \<open>clar_offset\<close> equal to the magnitude, from which the signed value is \<open>offset_hz\<close> again.
\<close>

theorem clarifier_offset_round_trip:
  assumes "offset_hz \<in> {- 9995, - 1, 0, 1, 9995}"
    and "next_reads ftx (map Some cs1 @ [e1] @ map Some cs2 @ [e2])"
    and "CHR '';'' \<notin> set cs1" "e1 = None \<or> e1 = Some CHR '';''" "list_all is_ascii cs1"
    and "CHR '';'' \<notin> set cs2" "e2 = None \<or> e2 = Some CHR '';''"
    and "next_reads g (map Some r @ [e])"
    and "CHR '';'' \<notin> set r" "e = None \<or> e = Some CHR '';''" "list_all is_ascii r"
    and "29 \<le> length r" "py_int (py_slice r 7 16) = Inr fr"
    and "py_slice r 16 21 =
      (if 0 \<le> offset_hz then ''+'' else ''-'') @ py_format_0d 4 \<bar>offset_hz\<bar>"
  shows "length (py_format_0d 4 \<bar>offset_hz\<bar>) = 4 \<and>
    list_all is_digit (py_format_0d 4 \<bar>offset_hz\<bar>) \<and>
    set_clarifier ftx rx_on tx_on offset_hz side =
      Some (map_sum id (\<lambda>_. ()) (decode_ascii cs2),
            ftx\<lparr>ser_written := ser_written ftx @
                   [set_clarifier_flags_command rx_on tx_on side @ '';'',
                    ''CF'' @ py_str side @ ''01'' @ (if 0 \<le> offset_hz then ''+'' else ''-'') @
                      py_format_0d 4 \<bar>offset_hz\<bar> @ '';''],
                ser_pos := ser_pos ftx + length cs1 + length cs2 + 2\<rparr>) \<and>
    (\<exists>info. get_radio_info g =
         Some (Inr info, g\<lparr>ser_written := ser_written g @ [''IF;''],
                            ser_pos := ser_pos g + length r + 1\<rparr>) \<and>
       info_clar_direction info = (if 0 \<le> offset_hz then CHR ''+'' else CHR ''-'') \<and>
       info_clar_offset info = \<bar>offset_hz\<bar> \<and>
       (if info_clar_direction info = CHR ''-'' then - info_clar_offset info
        else info_clar_offset info) = offset_hz)"
proof -
  from assms(1) have b: "\<bar>offset_hz\<bar> \<le> 9999" by auto
  note f = clarifier_field [OF b]
  have c: "set_clarifier_offset_command offset_hz side =
      ''CF'' @ py_str side @ ''01'' @ (if 0 \<le> offset_hz then ''+'' else ''-'') @
        py_format_0d 4 \<bar>offset_hz\<bar>"
    by (simp add: set_clarifier_offset_command_def Let_def)
  have sc: "set_clarifier ftx rx_on tx_on offset_hz side =
      Some (map_sum id (\<lambda>_. ()) (decode_ascii cs2),
            ftx\<lparr>ser_written := ser_written ftx @
                   [set_clarifier_flags_command rx_on tx_on side @ '';'',
                    ''CF'' @ py_str side @ ''01'' @ (if 0 \<le> offset_hz then ''+'' else ''-'') @
                      py_format_0d 4 \<bar>offset_hz\<bar> @ '';''],
                ser_pos := ser_pos ftx + length cs1 + length cs2 + 2\<rparr>)"
    using set_clarifier_run [OF assms(2-7), of rx_on tx_on offset_hz side] unfolding c by simp
  from assms(14) have sl: "py_slice r 16 21 =
      (if 0 \<le> offset_hz then CHR ''+'' else CHR ''-'') # py_format_0d 4 \<bar>offset_hz\<bar>"
    by simp
  from get_radio_info_decode_clarifier [OF assms(12,13) sl f(3)] obtain info where
    i: "get_radio_info_decode r = Inr info"
      "info_clar_direction info = (if 0 \<le> offset_hz then CHR ''+'' else CHR ''-'')"
      "info_clar_offset info = \<bar>offset_hz\<bar>"
    by (elim exE conjE)
  have "list_all is_ascii ''IF''" by (simp add: is_ascii_def)
  from getter_run [OF this assms(8-11), of get_radio_info_decode] i(1)
  have gi: "get_radio_info g =
         Some (Inr info, g\<lparr>ser_written := ser_written g @ [''IF;''],
                            ser_pos := ser_pos g + length r + 1\<rparr>)"
    by (simp add: get_radio_info_def)
  from i(2,3) have sv: "(if info_clar_direction info = CHR ''-'' then - info_clar_offset info
        else info_clar_offset info) = offset_hz"
    by simp
  from gi i(2,3) sv have "\<exists>info. get_radio_info g =
         Some (Inr info, g\<lparr>ser_written := ser_written g @ [''IF;''],
                            ser_pos := ser_pos g + length r + 1\<rparr>) \<and>
       info_clar_direction info = (if 0 \<le> offset_hz then CHR ''+'' else CHR ''-'') \<and>
       info_clar_offset info = \<bar>offset_hz\<bar> \<and>
       (if info_clar_direction info = CHR ''-'' then - info_clar_offset info
        else info_clar_offset info) = offset_hz"
    by (intro exI [of _ info] conjI)
  with f(1,2) sc show ?thesis by (intro conjI)
qed

lemma py_format_0d_4_9995: "py_format_0d 4 9995 = ''9995''"
  by (simp add: py_format_0d_def zfill_def dec_digits.simps digit_char_table replicate_numeral)

lemma py_int_example: "py_int ''014250000'' = Inr 14250000"
  using py_int_format_0d [of 14250000 9] by (simp add: py_format_0d_9_example)

theorem clarifier_offset_round_trip_witness:
  "set_clarifier \<lparr>ser_written = [], ser_rx = script [], ser_pos = 0\<rparr> True False (- 9995) 0 =
     Some (Inr (), \<lparr>ser_written = [''CF00010000;'', ''CF001-9995;''], ser_rx = script [],
                    ser_pos = 2\<rparr>) \<and>
   (\<exists>info. map_option fst (get_radio_info
       \<lparr>ser_written = [], ser_rx = script (map Some ''IF00001014250000-999510200000;''),
         ser_pos = 0\<rparr>) = Some (Inr info) \<and>
      info_clar_direction info = CHR ''-'' \<and> info_clar_offset info = 9995)"
proof -
  let ?g = "\<lparr>ser_written = [], ser_rx = script (map Some ''IF00001014250000-999510200000;''),
         ser_pos = 0\<rparr>"
  let ?r = "''IF00001014250000-999510200000''"
  have n: "next_reads ?g (map Some ?r @ [Some CHR '';''])"
    using next_reads_script [of "[]" "map Some ''IF00001014250000-999510200000;''"] by simp
  have a: "list_all is_ascii ?r"
    by (simp add: is_ascii_def)
  have p: "py_int (py_slice ?r 7 16) = Inr 14250000"
    by (simp add: py_slice_def py_int_example)
  have s: "py_slice ?r 16 21 =
      (if 0 \<le> (- 9995 :: int) then ''+'' else ''-'') @ py_format_0d 4 \<bar>- 9995\<bar>"
    by (simp add: py_slice_def py_format_0d_4_9995)
  note t = clarifier_offset_round_trip [of "- 9995"
      "\<lparr>ser_written = [], ser_rx = script [], ser_pos = 0\<rparr>" "[]" None "[]" None ?g
      ?r "Some CHR '';''" 14250000 True False 0,
      OF _ next_reads_silent_2 _ _ _ _ _ n _ _ a _ p s]
  have c: "(- 9995 :: int) \<in> {- 9995, - 1, 0, 1, 9995}" "CHR '';'' \<notin> set ?r"
    "29 \<le> length ?r" "CHR '';'' \<notin> set ([]::string)" "list_all is_ascii []"
    "(None :: char option) = None \<or> None = Some CHR '';''"
    "Some CHR '';'' = None \<or> Some CHR '';'' = Some CHR '';''"
    by simp_all
  note t' = t [OF c(1) c(4) c(6) c(5) c(4) c(6) c(2) c(7) c(3)]
  from t' have sc: "set_clarifier \<lparr>ser_written = [], ser_rx = script [], ser_pos = 0\<rparr>
      True False (- 9995) 0 =
     Some (Inr (), \<lparr>ser_written = [''CF00010000;'', ''CF001-9995;''], ser_rx = script [],
                    ser_pos = 2\<rparr>)"
    by (simp add: decode_ascii_Nil py_str_0 py_format_0d_4_9995 set_clarifier_flags_command_def)
  from t' obtain info where
    "get_radio_info ?g = Some (Inr info, ?g\<lparr>ser_written := ser_written ?g @ [''IF;''],
        ser_pos := ser_pos ?g + length ?r + 1\<rparr>)"
    "info_clar_direction info = (if 0 \<le> (- 9995 :: int) then CHR ''+'' else CHR ''-'')"
    "info_clar_offset info = \<bar>- 9995\<bar>"
    by (elim conjE exE)
  then have "map_option fst (get_radio_info ?g) = Some (Inr info) \<and>
      info_clar_direction info = CHR ''-'' \<and> info_clar_offset info = 9995"
    by simp
  then have "\<exists>info. map_option fst (get_radio_info ?g) = Some (Inr info) \<and>
      info_clar_direction info = CHR ''-'' \<and> info_clar_offset info = 9995"
    by (rule exI)
  with sc show ?thesis by (rule conjI)
qed

lemma command_frame_ok_body: "CHR '';'' \<notin> set c \<Longrightarrow> command_frame_ok (c @ '';'')"
  by (simp add: command_frame_ok_def)

lemma wrote_frames_one:
  "ser_written ftx' = ser_written ftx @ [c @ '';''] \<Longrightarrow> CHR '';'' \<notin> set c \<Longrightarrow>
   wrote_frames ftx ftx'"
  by (simp add: wrote_frames_def command_frame_ok_body)

lemma wrote_frames_two:
  "ser_written ftx' = ser_written ftx @ [c @ '';'', d @ '';''] \<Longrightarrow> CHR '';'' \<notin> set c \<Longrightarrow>
   CHR '';'' \<notin> set d \<Longrightarrow> wrote_frames ftx ftx'"
  by (simp add: wrote_frames_def command_frame_ok_body)

lemma setter_wrote:
  assumes "map_option snd (returns_nothing (send_command ftx c)) = Some ftx'"
    and "list_all is_ascii c" "CHR '';'' \<notin> set c"
  shows "wrote_frames ftx ftx'"
proof -
  from assms(1) obtain v where "returns_nothing (send_command ftx c) = Some (v, ftx')"
    by (cases "returns_nothing (send_command ftx c)") auto
  then obtain v0 where "send_command ftx c = Some (v0, ftx')"
    unfolding returns_nothing_Some by (elim exE conjE)
  from wrote_frames_one [OF send_command_written [OF this assms(2)] assms(3)]
  show ?thesis .
qed

lemma getter_wrote:
  assumes "map_option snd (returns_decoded f (send_command ftx c)) = Some ftx'"
    and "list_all is_ascii c" "CHR '';'' \<notin> set c"
  shows "wrote_frames ftx ftx'"
proof -
  from assms(1) obtain v where "returns_decoded f (send_command ftx c) = Some (v, ftx')"
    by (cases "returns_decoded f (send_command ftx c)") auto
  then obtain v0 where "send_command ftx c = Some (v0, ftx')"
    unfolding returns_decoded_Some by (elim exE conjE)
  from wrote_frames_one [OF send_command_written [OF this assms(2)] assms(3)]
  show ?thesis .
qed

lemma set_clarifier_command_no_semicolon:
  "CHR '';'' \<notin> set (set_clarifier_flags_command rx_on tx_on side)"
  "CHR '';'' \<notin> set (set_clarifier_offset_command offset_hz side)"
  by (simp_all add: set_clarifier_flags_command_def set_clarifier_offset_command_def Let_def
      py_str_no_semicolon py_format_0d_no_semicolon)

lemma set_clarifier_wrote:
  assumes "map_option snd (set_clarifier ftx rx_on tx_on offset_hz side) = Some ftx'"
  shows "wrote_frames ftx ftx'"
proof -
  from assms obtain v where "set_clarifier ftx rx_on tx_on offset_hz side = Some (v, ftx')"
    by (cases "set_clarifier ftx rx_on tx_on offset_hz side") auto
  from set_clarifier_written [OF this] show ?thesis
  proof
    assume "ser_written ftx' =
        ser_written ftx @ [set_clarifier_flags_command rx_on tx_on side @ '';''] \<and> v \<noteq> Inr ()"
    then show ?thesis
      by (intro wrote_frames_one [where c = "set_clarifier_flags_command rx_on tx_on side"]
          set_clarifier_command_no_semicolon) simp
  next
    assume "ser_written ftx' = ser_written ftx @
        [set_clarifier_flags_command rx_on tx_on side @ '';'',
         set_clarifier_offset_command offset_hz side @ '';'']"
    then show ?thesis
      by (rule wrote_frames_two) (rule set_clarifier_command_no_semicolon)+
  qed
qed

lemmas body_simps =
  is_ascii_def py_str_ascii py_str_no_semicolon py_format_0d_ascii py_format_0d_no_semicolon
  OperatingMode_value_chars AGCMode_value_chars
  set_frequency_main_command_def set_frequency_sub_command_def set_mode_command_def
  set_if_shift_command_def Let_def

text \<open>
  C9. Every call of the catalog that returns or raises has either written one or more
  frames to the port, each of them a body without terminator followed by exactly one
  terminator, or written nothing at all; and it writes nothing only when it rejects its
  argument (\<open>set_memory_channel\<close> outside 1..99, \<open>set_rf_power\<close> with a float). This holds
  for all integer arguments, hence for those within the documented ranges.
\<close>

theorem catalog_frames_well_formed:
  assumes "run_call fl ftx call = Some ftx'"
  shows "wrote_frames ftx ftx' \<or>
    (ftx' = ftx \<and>
     ((\<exists>channel side. call = Call_set_memory_channel channel side \<and>
         \<not> (1 \<le> channel \<and> channel \<le> 99)) \<or>
      (\<exists>unit. call = Call_set_rf_power PyFloat unit)))"
proof (cases call)
  case (Call_set_frequency_main a0)
  with assms have h: "map_option snd (set_frequency_main ftx a0) = Some ftx'" by simp
  show ?thesis
    by (rule disjI1, rule setter_wrote [OF h [unfolded set_frequency_main_def Let_def]])
       (simp_all add: body_simps)
next
  case (Call_get_frequency_main)
  with assms have h: "map_option snd (get_frequency_main ftx) = Some ftx'" by simp
  show ?thesis
    by (rule disjI1, rule getter_wrote [OF h [unfolded get_frequency_main_def]])
       (simp_all add: body_simps)
next
  case (Call_set_frequency_sub a0)
  with assms have h: "map_option snd (set_frequency_sub ftx a0) = Some ftx'" by simp
  show ?thesis
    by (rule disjI1, rule setter_wrote [OF h [unfolded set_frequency_sub_def Let_def]])
       (simp_all add: body_simps)
next
  case (Call_get_frequency_sub)
  with assms have h: "map_option snd (get_frequency_sub ftx) = Some ftx'" by simp
  show ?thesis
    by (rule disjI1, rule getter_wrote [OF h [unfolded get_frequency_sub_def]])
       (simp_all add: body_simps)
next
  case (Call_set_mode a0 a1)
  with assms have h: "map_option snd (set_mode ftx a0 a1) = Some ftx'" by simp
  show ?thesis
    by (rule disjI1, rule setter_wrote [OF h [unfolded set_mode_def Let_def]])
       (simp_all add: body_simps)
next
  case (Call_get_mode a0)
  with assms have h: "map_option snd (get_mode ftx a0) = Some ftx'" by simp
  show ?thesis
    by (rule disjI1, rule getter_wrote [OF h [unfolded get_mode_def]])
       (simp_all add: body_simps)
next
  case (Call_set_ptt a0)
  with assms have h: "map_option snd (set_ptt ftx a0) = Some ftx'" by simp
  show ?thesis
    by (rule disjI1, rule setter_wrote [OF h [unfolded set_ptt_def Let_def]])
       (simp_all add: body_simps)
next
  case (Call_get_ptt_status)
  with assms have h: "map_option snd (get_ptt_status ftx) = Some ftx'" by simp
  show ?thesis
    by (rule disjI1, rule getter_wrote [OF h [unfolded get_ptt_status_def]])
       (simp_all add: body_simps)
next
  case (Call_set_rf_power a0 a1)
  with assms have h: "map_option snd (set_rf_power ftx a0 a1) = Some ftx'" by simp
  show ?thesis
  proof (cases a0)
    case (PyInt p)
    with h have "map_option snd (returns_nothing
        (send_command ftx (''PC'' @ py_str a1 @ py_format_0d 3 p))) = Some ftx'"
      by (simp add: set_rf_power_def)
    then show ?thesis
      by (rule disjI1 [OF setter_wrote]) (simp_all add: body_simps)
  next
    case PyFloat
    with h have "ftx' = ftx" by (simp add: set_rf_power_def)
    with PyFloat Call_set_rf_power show ?thesis by simp
  qed
next
  case (Call_get_rf_power)
  with assms have h: "map_option snd (get_rf_power fl ftx) = Some ftx'" by simp
  show ?thesis
    by (rule disjI1, rule getter_wrote [OF h [unfolded get_rf_power_def]])
       (simp_all add: body_simps)
next
  case (Call_set_agc a0 a1)
  with assms have h: "map_option snd (set_agc ftx a0 a1) = Some ftx'" by simp
  show ?thesis
    by (rule disjI1, rule setter_wrote [OF h [unfolded set_agc_def Let_def]])
       (simp_all add: body_simps)
next
  case (Call_get_agc a0)
  with assms have h: "map_option snd (get_agc ftx a0) = Some ftx'" by simp
  show ?thesis
    by (rule disjI1, rule getter_wrote [OF h [unfolded get_agc_def]])
       (simp_all add: body_simps)
next
  case (Call_set_af_gain a0 a1)
  with assms have h: "map_option snd (set_af_gain ftx a0 a1) = Some ftx'" by simp
  show ?thesis
    by (rule disjI1, rule setter_wrote [OF h [unfolded set_af_gain_def Let_def]])
       (simp_all add: body_simps)
next
  case (Call_get_af_gain a0)
  with assms have h: "map_option snd (get_af_gain ftx a0) = Some ftx'" by simp
  show ?thesis
    by (rule disjI1, rule getter_wrote [OF h [unfolded get_af_gain_def]])
       (simp_all add: body_simps)
next
  case (Call_set_squelch a0 a1)
  with assms have h: "map_option snd (set_squelch ftx a0 a1) = Some ftx'" by simp
  show ?thesis
    by (rule disjI1, rule setter_wrote [OF h [unfolded set_squelch_def Let_def]])
       (simp_all add: body_simps)
next
  case (Call_get_squelch a0)
  with assms have h: "map_option snd (get_squelch ftx a0) = Some ftx'" by simp
  show ?thesis
    by (rule disjI1, rule getter_wrote [OF h [unfolded get_squelch_def]])
       (simp_all add: body_simps)
next
  case (Call_get_s_meter a0)
  with assms have h: "map_option snd (get_s_meter ftx a0) = Some ftx'" by simp
  show ?thesis
    by (rule disjI1, rule getter_wrote [OF h [unfolded get_s_meter_def]])
       (simp_all add: body_simps)
next
  case (Call_get_meter_reading a0)
  with assms have h: "map_option snd (get_meter_reading ftx a0) = Some ftx'" by simp
  show ?thesis
    by (rule disjI1, rule getter_wrote [OF h [unfolded get_meter_reading_def]])
       (simp_all add: body_simps)
next
  case (Call_toggle_vfo_memory a0)
  with assms have h: "map_option snd (toggle_vfo_memory ftx a0) = Some ftx'" by simp
  show ?thesis
    by (rule disjI1, rule setter_wrote [OF h [unfolded toggle_vfo_memory_def Let_def]])
       (simp_all add: body_simps)
next
  case (Call_set_memory_channel a0 a1)
  with assms have h: "map_option snd (set_memory_channel ftx a0 a1) = Some ftx'" by simp
  show ?thesis
  proof (cases "1 \<le> a0 \<and> a0 \<le> 99")
    case True
    with h have "map_option snd (returns_nothing
        (send_command ftx (''MC'' @ py_str a1 @ py_format_0d 5 a0))) = Some ftx'"
      by (simp add: set_memory_channel_def)
    then show ?thesis
      by (rule disjI1 [OF setter_wrote]) (simp_all add: body_simps)
  next
    case False
    with h have "ftx' = ftx" by (simp add: set_memory_channel_def)
    with False Call_set_memory_channel show ?thesis by simp
  qed
next
  case (Call_memory_to_vfo)
  with assms have h: "map_option snd (memory_to_vfo ftx) = Some ftx'" by simp
  show ?thesis
    by (rule disjI1, rule setter_wrote [OF h [unfolded memory_to_vfo_def Let_def]])
       (simp_all add: body_simps)
next
  case (Call_memory_to_vfo_sub)
  with assms have h: "map_option snd (memory_to_vfo_sub ftx) = Some ftx'" by simp
  show ?thesis
    by (rule disjI1, rule setter_wrote [OF h [unfolded memory_to_vfo_sub_def Let_def]])
       (simp_all add: body_simps)
next
  case (Call_set_split a0)
  with assms have h: "map_option snd (set_split ftx a0) = Some ftx'" by simp
  show ?thesis
    by (rule disjI1, rule setter_wrote [OF h [unfolded set_split_def Let_def]])
       (simp_all add: body_simps)
next
  case (Call_get_split)
  with assms have h: "map_option snd (get_split ftx) = Some ftx'" by simp
  show ?thesis
    by (rule disjI1, rule getter_wrote [OF h [unfolded get_split_def]])
       (simp_all add: body_simps)
next
  case (Call_set_clarifier a0 a1 a2 a3)
  with assms have h: "map_option snd (set_clarifier ftx a0 a1 a2 a3) = Some ftx'" by simp
  from set_clarifier_wrote [OF h] show ?thesis by (rule disjI1)
next
  case (Call_band_up a0)
  with assms have h: "map_option snd (band_up ftx a0) = Some ftx'" by simp
  show ?thesis
    by (rule disjI1, rule setter_wrote [OF h [unfolded band_up_def Let_def]])
       (simp_all add: body_simps)
next
  case (Call_band_down a0)
  with assms have h: "map_option snd (band_down ftx a0) = Some ftx'" by simp
  show ?thesis
    by (rule disjI1, rule setter_wrote [OF h [unfolded band_down_def Let_def]])
       (simp_all add: body_simps)
next
  case (Call_select_band a0 a1)
  with assms have h: "map_option snd (select_band ftx a0 a1) = Some ftx'" by simp
  show ?thesis
    by (rule disjI1, rule setter_wrote [OF h [unfolded select_band_def Let_def]])
       (simp_all add: body_simps)
next
  case (Call_set_scan a0 a1)
  with assms have h: "map_option snd (set_scan ftx a0 a1) = Some ftx'" by simp
  show ?thesis
    by (rule disjI1, rule setter_wrote [OF h [unfolded set_scan_def Let_def]])
       (simp_all add: body_simps)
next
  case (Call_set_cw_keyer a0)
  with assms have h: "map_option snd (set_cw_keyer ftx a0) = Some ftx'" by simp
  show ?thesis
    by (rule disjI1, rule setter_wrote [OF h [unfolded set_cw_keyer_def Let_def]])
       (simp_all add: body_simps)
next
  case (Call_set_cw_speed a0)
  with assms have h: "map_option snd (set_cw_speed ftx a0) = Some ftx'" by simp
  show ?thesis
    by (rule disjI1, rule setter_wrote [OF h [unfolded set_cw_speed_def Let_def]])
       (simp_all add: body_simps)
next
  case (Call_get_cw_speed)
  with assms have h: "map_option snd (get_cw_speed ftx) = Some ftx'" by simp
  show ?thesis
    by (rule disjI1, rule getter_wrote [OF h [unfolded get_cw_speed_def]])
       (simp_all add: body_simps)
next
  case (Call_set_cw_pitch a0)
  with assms have h: "map_option snd (set_cw_pitch ftx a0) = Some ftx'" by simp
  show ?thesis
    by (rule disjI1, rule setter_wrote [OF h [unfolded set_cw_pitch_def Let_def]])
       (simp_all add: body_simps)
next
  case (Call_set_breakin a0)
  with assms have h: "map_option snd (set_breakin ftx a0) = Some ftx'" by simp
  show ?thesis
    by (rule disjI1, rule setter_wrote [OF h [unfolded set_breakin_def Let_def]])
       (simp_all add: body_simps)
next
  case (Call_set_if_shift a0 a1)
  with assms have h: "map_option snd (set_if_shift ftx a0 a1) = Some ftx'" by simp
  show ?thesis
    by (rule disjI1, rule setter_wrote [OF h [unfolded set_if_shift_def Let_def]])
       (simp_all add: body_simps)
next
  case (Call_set_width a0 a1)
  with assms have h: "map_option snd (set_width ftx a0 a1) = Some ftx'" by simp
  show ?thesis
    by (rule disjI1, rule setter_wrote [OF h [unfolded set_width_def Let_def]])
       (simp_all add: body_simps)
next
  case (Call_set_narrow a0 a1)
  with assms have h: "map_option snd (set_narrow ftx a0 a1) = Some ftx'" by simp
  show ?thesis
    by (rule disjI1, rule setter_wrote [OF h [unfolded set_narrow_def Let_def]])
       (simp_all add: body_simps)
next
  case (Call_set_noise_blanker a0 a1)
  with assms have h: "map_option snd (set_noise_blanker ftx a0 a1) = Some ftx'" by simp
  show ?thesis
    by (rule disjI1, rule setter_wrote [OF h [unfolded set_noise_blanker_def Let_def]])
       (simp_all add: body_simps)
next
  case (Call_set_dnr a0 a1)
  with assms have h: "map_option snd (set_dnr ftx a0 a1) = Some ftx'" by simp
  show ?thesis
    by (rule disjI1, rule setter_wrote [OF h [unfolded set_dnr_def Let_def]])
       (simp_all add: body_simps)
next
  case (Call_set_dnf a0 a1)
  with assms have h: "map_option snd (set_dnf ftx a0 a1) = Some ftx'" by simp
  show ?thesis
    by (rule disjI1, rule setter_wrote [OF h [unfolded set_dnf_def Let_def]])
       (simp_all add: body_simps)
next
  case (Call_get_radio_info)
  with assms have h: "map_option snd (get_radio_info ftx) = Some ftx'" by simp
  show ?thesis
    by (rule disjI1, rule getter_wrote [OF h [unfolded get_radio_info_def]])
       (simp_all add: body_simps)
next
  case (Call_get_id)
  with assms have h: "map_option snd (get_id ftx) = Some ftx'" by simp
  show ?thesis
    by (rule disjI1, rule getter_wrote [OF h [unfolded get_id_def]])
       (simp_all add: body_simps)
next
  case (Call_get_firmware_version a0)
  with assms have h: "map_option snd (get_firmware_version ftx a0) = Some ftx'" by simp
  show ?thesis
    by (rule disjI1, rule getter_wrote [OF h [unfolded get_firmware_version_def]])
       (simp_all add: body_simps)
next
  case (Call_enable_auto_information a0)
  with assms have h: "map_option snd (enable_auto_information ftx a0) = Some ftx'" by simp
  show ?thesis
    by (rule disjI1, rule setter_wrote [OF h [unfolded enable_auto_information_def Let_def]])
       (simp_all add: body_simps)
next
  case (Call_lock_controls a0)
  with assms have h: "map_option snd (lock_controls ftx a0) = Some ftx'" by simp
  show ?thesis
    by (rule disjI1, rule setter_wrote [OF h [unfolded lock_controls_def Let_def]])
       (simp_all add: body_simps)
next
  case (Call_swap_vfo)
  with assms have h: "map_option snd (swap_vfo ftx) = Some ftx'" by simp
  show ?thesis
    by (rule disjI1, rule setter_wrote [OF h [unfolded swap_vfo_def Let_def]])
       (simp_all add: body_simps)
qed


theorem catalog_frames_well_formed_witness:
  "run_call (\<lambda>s. Inl ValueError :: error + nat)
     \<lparr>ser_written = [], ser_rx = script [], ser_pos = 0\<rparr> (Call_set_frequency_main 14250000) =
     Some \<lparr>ser_written = [''FA014250000;''], ser_rx = script [], ser_pos = 1\<rparr> \<and>
   wrote_frames \<lparr>ser_written = [], ser_rx = script [], ser_pos = 0\<rparr>
     \<lparr>ser_written = [''FA014250000;''], ser_rx = script [], ser_pos = 1\<rparr> \<and>
   command_frame_ok ''FA014250000;''"
proof -
  have h: "run_call (\<lambda>s. Inl ValueError :: error + nat)
     \<lparr>ser_written = [], ser_rx = script [], ser_pos = 0\<rparr> (Call_set_frequency_main 14250000) =
     Some \<lparr>ser_written = [''FA014250000;''], ser_rx = script [], ser_pos = 1\<rparr>"
    using setter_run [OF set_frequency_main_command_ascii next_reads_silent_1, of 14250000]
    by (simp add: set_frequency_main_def decode_ascii_Nil set_frequency_main_command_example)
  from catalog_frames_well_formed [OF h] have
    "wrote_frames \<lparr>ser_written = [], ser_rx = script [], ser_pos = 0\<rparr>
       \<lparr>ser_written = [''FA014250000;''], ser_rx = script [], ser_pos = 1\<rparr>"
    by simp
  moreover from this have "command_frame_ok ''FA014250000;''"
    by (simp add: wrote_frames_def)
  ultimately show ?thesis using h by simp
qed

end
